theory Spec2Isabelle
  imports Main
begin

section \<open>Royal Chess server (app.js): data model\<close>

text \<open>
  The server keeps three process-wide tables (\<open>gameRooms\<close>, \<open>playerSessions\<close>,
  \<open>rateLimits\<close>) and, per socket, the field \<open>socket.roomId\<close> and a map of pending
  disconnect timers. Every handler is modelled as a function from the server state (and
  the handler's arguments) to the new state and the list of effects it performs, in the
  order the source performs them.

  Conventions of the model:
  \<^item> \<open>Date.now()\<close> is the argument \<open>now\<close> (milliseconds, a natural number); an ISO
    timestamp made from it is kept as that number.
  \<^item> \<open>Math.random()\<close> results (session ids, the random part of a chat id) are
    arguments.
  \<^item> Socket ids, room ids and session ids are strings. A JavaScript value is falsy when it
    is \<open>undefined\<close> or the empty string, which is what \<open>truthy\<close> computes.
  \<^item> Room objects live in a store (\<open>rooms\<close>, from references to rooms) because the
    disconnect timer's closure keeps the room object itself, not its id; \<open>gameRooms\<close>
    maps a room id to the reference. \<open>gameRooms\<close> is a plain object, so a lookup of a
    name it does not own finds what \<open>Object.prototype\<close> holds under that name;
    \<open>getOrCreateRoom\<close> models this.
  \<^item> An exception that a handler throws and nothing catches is the effect \<open>Uncaught\<close>,
    the last effect of that handler.
  \<^item> The rules engine (chess.js) is not part of the repository: it is the parameter
    \<open>e\<close>, a record of the methods the server calls. A method the server guards with
    an existence check (\<open>chess.game_over && chess.game_over()\<close>) is an optional field.
\<close>

type_synonym conn = string
type_synonym ref = nat
type_synonym jsstring = "nat list"

datatype color = W | B

datatype seat = White | Black

fun seat_name :: "seat \<Rightarrow> string" where
  "seat_name White = ''white''"
| "seat_name Black = ''black''"

datatype 'p move_result = Illegal | Threw string | Legal 'p string color

record ('p, 'm) engine =
  newChess :: 'p
  turn :: "'p \<Rightarrow> color"
  fen :: "'p \<Rightarrow> string"
  move :: "'p \<Rightarrow> 'm \<Rightarrow> 'p move_result"
  reset :: "'p \<Rightarrow> 'p"
  game_over :: "('p \<Rightarrow> bool) option"
  in_checkmate :: "('p \<Rightarrow> bool) option"
  in_stalemate :: "('p \<Rightarrow> bool) option"
  in_threefold_repetition :: "('p \<Rightarrow> bool) option"
  insufficient_material :: "('p \<Rightarrow> bool) option"
  in_draw :: "('p \<Rightarrow> bool) option"

record move_entry =
  mh_move :: string
  mh_color :: color
  mh_timestamp :: nat

record chat_entry =
  cm_id :: "nat \<times> nat"
  cm_message :: jsstring
  cm_playerRole :: string
  cm_timestamp :: nat
  cm_socketId :: conn

record 'p room =
  chess :: 'p
  white :: "conn option"
  black :: "conn option"
  currentPlayer :: color
  spectators :: "conn list"
  moveHistory :: "move_entry list"
  chatHistory :: "chat_entry list"
  createdAt :: nat
  lastActivity :: nat

record limit =
  count :: nat
  resetTime :: nat

record timer =
  tm_room :: ref
  tm_roomId :: string
  tm_due :: nat

record 'p server =
  rooms :: "ref \<rightharpoonup> 'p room"
  nextRef :: ref
  gameRooms :: "string \<rightharpoonup> ref"
  playerSessions :: "string \<rightharpoonup> (string \<times> seat)"
  rateLimits :: "string \<rightharpoonup> limit"
  socketRoomId :: "conn \<rightharpoonup> string"
  disconnectTimers :: "conn \<rightharpoonup> timer"

text \<open>What a handler does besides changing the tables: \<open>socket.emit\<close> (\<open>Socket\<close>),
  \<open>io.to(x).emit\<close> (\<open>IoTo\<close>), \<open>socket.join\<close>, and an exception that leaves the
  handler.\<close>

datatype target = Socket conn | IoTo string

datatype 'm event =
    Error string
  | SessionId string
  | RoleUnavailable string string
  | RoleAssigned string
  | BoardState string
  | MoveHistory "move_entry list"
  | ChatHistory "chat_entry list"
  | PlayersUpdate string string nat
  | Move 'm
  | MoveError 'm
  | GameEnd string "string option" "string option" "string option"
  | ChatError string
  | ChatMessage chat_entry
  | GameReset
  | DrawOfferError string
  | DrawOfferReceived string
  | DrawOfferSent
  | DrawOfferDeclined string

datatype 'm effect = Emit target "'m event" | SocketJoin conn string | Uncaught string

definition init_server :: "'p server" where
  "init_server = \<lparr> rooms = Map.empty, nextRef = 0, gameRooms = Map.empty,
     playerSessions = Map.empty, rateLimits = Map.empty, socketRoomId = Map.empty,
     disconnectTimers = Map.empty \<rparr>"

definition truthy :: "string option \<Rightarrow> bool" where
  "truthy x = (case x of None \<Rightarrow> False | Some v \<Rightarrow> v \<noteq> [])"

text \<open>\<open>const roomId = socket.roomId; if (!roomId || !gameRooms[roomId]) return;\<close> followed by
  \<open>const room = gameRooms[roomId]\<close>: the room id, the reference and the room object.\<close>

definition socketRoom :: "'p server \<Rightarrow> conn \<Rightarrow> (string \<times> ref \<times> 'p room) option" where
  "socketRoom s sid =
     (case socketRoomId s sid of
        None \<Rightarrow> None
      | Some roomId \<Rightarrow>
          if roomId = [] then None
          else (case gameRooms s roomId of
                  None \<Rightarrow> None
                | Some a \<Rightarrow> (case rooms s a of
                              None \<Rightarrow> None
                            | Some room \<Rightarrow> Some (roomId, a, room))))"

definition occupancy :: "string option \<Rightarrow> string" where
  "occupancy x = (if truthy x then ''connected'' else ''waiting'')"

definition playersUpdate :: "'p room \<Rightarrow> 'm event" where
  "playersUpdate room =
     PlayersUpdate (occupancy (white room)) (occupancy (black room)) (length (spectators room))"

section \<open>Move handling\<close>

text \<open>\<open>chess.f && chess.f()\<close>: false when the engine has no method \<open>f\<close>.\<close>

definition has :: "('p \<Rightarrow> bool) option \<Rightarrow> 'p \<Rightarrow> bool" where
  "has f p = (case f of None \<Rightarrow> False | Some g \<Rightarrow> g p)"

definition gameEndCheck :: "('p, 'm) engine \<Rightarrow> string \<Rightarrow> 'p \<Rightarrow> 'm effect list" where
  "gameEndCheck e roomId p =
     (if has (game_over e) p then
        (if has (in_checkmate e) p then
           [Emit (IoTo roomId)
              (GameEnd ''checkmate'' (Some (if turn e p = W then ''black'' else ''white'')) None None)]
         else if has (in_stalemate e) p then
           [Emit (IoTo roomId) (GameEnd ''stalemate'' None None None)]
         else if has (in_threefold_repetition e) p then
           [Emit (IoTo roomId) (GameEnd ''threefold'' None None None)]
         else if has (insufficient_material e) p then
           [Emit (IoTo roomId) (GameEnd ''insufficient'' None None None)]
         else if has (in_draw e) p then
           [Emit (IoTo roomId) (GameEnd ''draw'' None None None)]
         else [])
      else [])"

definition on_move :: "('p, 'm) engine \<Rightarrow> 'p server \<Rightarrow> conn \<Rightarrow> 'm \<Rightarrow> nat
    \<Rightarrow> 'p server \<times> 'm effect list" where
  "on_move e s sid mv now =
     (case socketRoom s sid of
        None \<Rightarrow> (s, [])
      | Some (roomId, a, room) \<Rightarrow>
          if turn e (chess room) = W \<and> white room \<noteq> Some sid then (s, [])
          else if turn e (chess room) = B \<and> black room \<noteq> Some sid then (s, [])
          else (case move e (chess room) mv of
                  Illegal \<Rightarrow> (s, [Emit (Socket sid) (MoveError mv)])
                | Threw msg \<Rightarrow> (s, [Emit (Socket sid) (MoveError mv)])
                | Legal p san col \<Rightarrow>
                    (let history = moveHistory room @
                           [\<lparr> mh_move = san, mh_color = col, mh_timestamp = now \<rparr>];
                         room' = room \<lparr> chess := p, moveHistory := history,
                                         currentPlayer := turn e p \<rparr>
                     in (s \<lparr> rooms := (rooms s)(a \<mapsto> room') \<rparr>,
                         [Emit (IoTo roomId) (Move mv),
                          Emit (IoTo roomId) (BoardState (fen e p)),
                          Emit (IoTo roomId) (MoveHistory history)]
                         @ gameEndCheck e roomId p))))"

section \<open>Input validation and rate limiting\<close>

text \<open>\<open>roomId.toUpperCase()\<close> on the characters U+0000..U+00FF, which is what a
  \<open>char\<close> holds here: a-z go to A-Z and U+00DF goes to SS; every other character is
  left as it is (its upper case is never one of A-Z, 0-9 or the hyphen).\<close>

definition toUpperCase :: "char \<Rightarrow> string" where
  "toUpperCase c =
     (let n = (of_char c :: nat)
      in if 97 \<le> n \<and> n \<le> 122 then [char_of (n - 32)]
         else if n = 223 then ''SS''
         else [c])"

definition roomPattern :: "char \<Rightarrow> bool" where
  "roomPattern c =
     (let n = (of_char c :: nat)
      in (65 \<le> n \<and> n \<le> 90) \<or> (48 \<le> n \<and> n \<le> 57) \<or> n = 45)"

definition validateRoomId :: "string \<Rightarrow> bool" where
  "validateRoomId roomId =
     (if roomId = [] then False
      else (let u = concat (map toUpperCase roomId)
            in 4 \<le> length u \<and> length u \<le> 12 \<and> list_all roomPattern u))"

definition validRoles :: "string list" where
  "validRoles = [''white'', ''black'', ''spectator'']"

text \<open>A chat text is a JavaScript string: a list of UTF-16 code units. \<open>js_space\<close> is the
  white space of \<open>String.prototype.trim\<close> and of \<open>\s\<close> in a regular expression.\<close>

definition js_space :: "nat \<Rightarrow> bool" where
  "js_space c =
     (c = 9 \<or> c = 10 \<or> c = 11 \<or> c = 12 \<or> c = 13 \<or> c = 32 \<or> c = 160 \<or> c = 5760
      \<or> (8192 \<le> c \<and> c \<le> 8202) \<or> c = 8232 \<or> c = 8233 \<or> c = 8239 \<or> c = 8287
      \<or> c = 12288 \<or> c = 65279)"

definition trim :: "jsstring \<Rightarrow> jsstring" where
  "trim str = rev (dropWhile js_space (rev (dropWhile js_space str)))"

text \<open>The character class \<open>[a-zA-Z0-9\s\-_.,!?'"()]\<close>.\<close>

definition allowedChars :: "nat \<Rightarrow> bool" where
  "allowedChars c =
     ((97 \<le> c \<and> c \<le> 122) \<or> (65 \<le> c \<and> c \<le> 90) \<or> (48 \<le> c \<and> c \<le> 57) \<or> js_space c
      \<or> c = 45 \<or> c = 95 \<or> c = 46 \<or> c = 44 \<or> c = 33 \<or> c = 63 \<or> c = 39 \<or> c = 34
      \<or> c = 40 \<or> c = 41)"

text \<open>The input is \<open>None\<close> when it is not a string.\<close>

definition validateInput :: "jsstring option \<Rightarrow> nat \<Rightarrow> jsstring option" where
  "validateInput input maxLength =
     (case input of
        None \<Rightarrow> None
      | Some str \<Rightarrow>
          if str = [] then None
          else (let trimmed = trim str
                in if length trimmed = 0 \<or> length trimmed > maxLength then None
                   else if \<not> list_all allowedChars trimmed then None
                   else Some trimmed))"

definition checkRateLimit :: "(string \<rightharpoonup> limit) \<Rightarrow> conn \<Rightarrow> string \<Rightarrow> nat \<Rightarrow> nat \<Rightarrow> nat
    \<Rightarrow> bool \<times> (string \<rightharpoonup> limit)" where
  "checkRateLimit rl socketId action maxRequests windowMs now =
     (let key = socketId @ ''-'' @ action
      in case rl key of
           None \<Rightarrow> (True, rl(key \<mapsto> \<lparr> count = 1, resetTime = now + windowMs \<rparr>))
         | Some lim \<Rightarrow>
             if now > resetTime lim
             then (True, rl(key \<mapsto> \<lparr> count = 1, resetTime = now + windowMs \<rparr>))
             else if count lim \<ge> maxRequests then (False, rl)
             else (True, rl(key \<mapsto> lim \<lparr> count := count lim + 1 \<rparr>)))"

section \<open>Room registry and periodic sweeps\<close>

text \<open>The property names of \<open>Object.prototype\<close>. For such a name, \<open>gameRooms[roomId]\<close> is
  the inherited function (or, for \<open>__proto__\<close>, the prototype object) unless the registry
  has an entry of its own. The room id pattern admits three of them: \<open>constructor\<close>,
  \<open>toString\<close> and \<open>valueOf\<close>.\<close>

definition objectPrototype :: "string list" where
  "objectPrototype =
     [''constructor'', ''__defineGetter__'', ''__defineSetter__'', ''hasOwnProperty'',
      ''__lookupGetter__'', ''__lookupSetter__'', ''isPrototypeOf'', ''propertyIsEnumerable'',
      ''toString'', ''valueOf'', ''__proto__'', ''toLocaleString'']"

text \<open>The registry's own entry for a room id, with the room object.\<close>

definition ownRoom :: "'p server \<Rightarrow> string \<Rightarrow> (ref \<times> 'p room) option" where
  "ownRoom s roomId =
     (case gameRooms s roomId of
        None \<Rightarrow> None
      | Some a \<Rightarrow> (case rooms s a of None \<Rightarrow> None | Some room \<Rightarrow> Some (a, room)))"

text \<open>\<open>getOrCreateRoom\<close> returns the room with its reference, or \<open>None\<close> when what it
  found under the id is an inherited property of the registry object: \<open>!gameRooms[roomId]\<close>
  is then false, no room is created, and the activity stamp is written to that inherited
  object, which is no room and no part of the tables.\<close>

definition getOrCreateRoom :: "('p, 'm) engine \<Rightarrow> 'p server \<Rightarrow> string \<Rightarrow> nat
    \<Rightarrow> 'p server \<times> (ref \<times> 'p room) option" where
  "getOrCreateRoom e s roomId now =
     (case ownRoom s roomId of
        Some (a, room) \<Rightarrow>
          (let room' = room \<lparr> lastActivity := now \<rparr>
           in (s \<lparr> rooms := (rooms s)(a \<mapsto> room') \<rparr>, Some (a, room')))
      | None \<Rightarrow>
          if roomId \<in> set objectPrototype then (s, None)
          else
            (let a = nextRef s;
                 room' = \<lparr> chess = newChess e, white = None, black = None, currentPlayer = W,
                           spectators = [], moveHistory = [], chatHistory = [],
                           createdAt = now, lastActivity = now \<rparr>
             in (s \<lparr> rooms := (rooms s)(a \<mapsto> room'), nextRef := Suc a,
                      gameRooms := (gameRooms s)(roomId \<mapsto> a) \<rparr>, Some (a, room'))))"

text \<open>The three \<open>setInterval\<close> sweeps. In \<open>now - room.lastActivity > 3600000\<close> a negative
  difference compares false, as the truncated difference of natural numbers does.\<close>

definition sweepRooms :: "'p server \<Rightarrow> nat \<Rightarrow> 'p server" where
  "sweepRooms s now =
     s \<lparr> gameRooms := (\<lambda>roomId.
            case gameRooms s roomId of
              None \<Rightarrow> None
            | Some a \<Rightarrow> (case rooms s a of
                          None \<Rightarrow> Some a
                        | Some room \<Rightarrow>
                            if now - lastActivity room > 3600000 then None else Some a)) \<rparr>"

definition sweepSessions :: "'p server \<Rightarrow> 'p server" where
  "sweepSessions s =
     s \<lparr> playerSessions := (\<lambda>sessionId.
            case playerSessions s sessionId of
              None \<Rightarrow> None
            | Some (roomId, role) \<Rightarrow>
                if gameRooms s roomId = None then None else Some (roomId, role)) \<rparr>"

definition sweepRateLimits :: "'p server \<Rightarrow> nat \<Rightarrow> 'p server" where
  "sweepRateLimits s now =
     s \<lparr> rateLimits := (\<lambda>key.
            case rateLimits s key of
              None \<Rightarrow> None
            | Some lim \<Rightarrow> if now > resetTime lim + 300000 then None else Some lim) \<rparr>"

section \<open>Joining, reconnecting and disconnecting\<close>

definition whiteTaken :: string where
  "whiteTaken = ''White player slot is already taken. You can spectate or try black if available.''"

definition blackTaken :: string where
  "blackTaken = ''Black player slot is already taken. You can spectate or try white if available.''"

text \<open>The role assignment of \<open>joinRoom\<close>: the room after it, the assigned role, the session
  stored (if a seat was taken) and what is emitted to the socket on the way.\<close>

definition assignRole :: "'p room \<Rightarrow> conn \<Rightarrow> string \<Rightarrow> string \<Rightarrow> string
    \<Rightarrow> 'p room \<times> string \<times> (string \<times> seat) option \<times> 'm event list" where
  "assignRole room sid roomId preferredRole sessionId =
     (if preferredRole = ''white'' then
        (if \<not> truthy (white room)
         then (room \<lparr> white := Some sid \<rparr>, ''white'', Some (roomId, White), [SessionId sessionId])
         else (room \<lparr> spectators := spectators room @ [sid] \<rparr>, ''spectator'', None,
               [RoleUnavailable ''white'' whiteTaken]))
      else if preferredRole = ''black'' then
        (if \<not> truthy (black room)
         then (room \<lparr> black := Some sid \<rparr>, ''black'', Some (roomId, Black), [SessionId sessionId])
         else (room \<lparr> spectators := spectators room @ [sid] \<rparr>, ''spectator'', None,
               [RoleUnavailable ''black'' blackTaken]))
      else if preferredRole = ''viewer'' \<or> preferredRole = ''spectator'' then
        (room \<lparr> spectators := spectators room @ [sid] \<rparr>, ''spectator'', None, [])
      else
        (if \<not> truthy (white room)
         then (room \<lparr> white := Some sid \<rparr>, ''white'', Some (roomId, White), [SessionId sessionId])
         else if \<not> truthy (black room)
         then (room \<lparr> black := Some sid \<rparr>, ''black'', Some (roomId, Black), [SessionId sessionId])
         else (room \<lparr> spectators := spectators room @ [sid] \<rparr>, ''spectator'', None, [])))"

text \<open>\<open>joinRoom\<close>. Its arguments are the two fields of the payload object; a field that
  is not a string fails its validation as an invalid string does. When \<open>getOrCreateRoom\<close>
  returned an inherited property instead of a room, the socket has joined and
  \<open>socket.roomId\<close> is set, and the role assignment then reads \<open>room.players.white\<close>,
  \<open>room.players.black\<close> or \<open>room.spectators.push\<close> of an object that has neither
  \<open>players\<close> nor \<open>spectators\<close>: a TypeError that nothing catches.\<close>

definition joinRoom :: "('p, 'm) engine \<Rightarrow> 'p server \<Rightarrow> conn \<Rightarrow> string \<Rightarrow> string \<Rightarrow> nat \<Rightarrow> string
    \<Rightarrow> 'p server \<times> 'm effect list" where
  "joinRoom e s sid roomId preferredRole now sessionId =
     (if \<not> validateRoomId roomId
      then (s, [Emit (Socket sid) (Error ''Invalid room ID format'')])
      else if preferredRole \<notin> set validRoles
      then (s, [Emit (Socket sid) (Error ''Invalid role specified'')])
      else
        (case getOrCreateRoom e s roomId now of
           (s1, None) \<Rightarrow>
             (s1 \<lparr> socketRoomId := (socketRoomId s1)(sid \<mapsto> roomId) \<rparr>,
              [SocketJoin sid roomId, Uncaught ''TypeError''])
         | (s1, Some (a, room)) \<Rightarrow>
         (case assignRole room sid roomId preferredRole sessionId of
            (room', assignedRole, session, emitted) \<Rightarrow>
              (s1 \<lparr> rooms := (rooms s1)(a \<mapsto> room'),
                    socketRoomId := (socketRoomId s1)(sid \<mapsto> roomId),
                    playerSessions :=
                      (case session of
                         None \<Rightarrow> playerSessions s1
                       | Some b \<Rightarrow> (playerSessions s1)(sessionId \<mapsto> b)) \<rparr>,
               [SocketJoin sid roomId]
               @ map (Emit (Socket sid)) emitted
               @ [Emit (Socket sid) (RoleAssigned assignedRole),
                  Emit (Socket sid) (BoardState (fen e (chess room'))),
                  Emit (Socket sid) (MoveHistory (moveHistory room')),
                  Emit (Socket sid) (ChatHistory (chatHistory room')),
                  Emit (IoTo roomId) (playersUpdate room')]))))"

fun player :: "seat \<Rightarrow> 'p room \<Rightarrow> conn option" where
  "player White room = white room"
| "player Black room = black room"

fun setPlayer :: "seat \<Rightarrow> conn \<Rightarrow> 'p room \<Rightarrow> 'p room" where
  "setPlayer White sid room = room \<lparr> white := Some sid \<rparr>"
| "setPlayer Black sid room = room \<lparr> black := Some sid \<rparr>"

definition roleTaken :: "string \<Rightarrow> string" where
  "roleTaken role = ''Your previous '' @ role @ '' role is now taken. You are now spectating.''"

definition reconnect :: "('p, 'm) engine \<Rightarrow> 'p server \<Rightarrow> conn \<Rightarrow> string
    \<Rightarrow> 'p server \<times> 'm effect list" where
  "reconnect e s sid sessionId =
     (if sessionId = [] then (s, [])
      else (case playerSessions s sessionId of
        None \<Rightarrow> (s, [])
      | Some (roomId, role) \<Rightarrow>
          (case gameRooms s roomId of
             None \<Rightarrow> (s, [])
           | Some a \<Rightarrow>
               (case rooms s a of
                  None \<Rightarrow> (s, [])
                | Some room \<Rightarrow>
                    if \<not> truthy (player role room) then
                      (let room' = setPlayer role sid room
                       in (s \<lparr> rooms := (rooms s)(a \<mapsto> room'),
                                socketRoomId := (socketRoomId s)(sid \<mapsto> roomId) \<rparr>,
                           [SocketJoin sid roomId,
                            Emit (Socket sid) (RoleAssigned (seat_name role)),
                            Emit (Socket sid) (BoardState (fen e (chess room'))),
                            Emit (Socket sid) (MoveHistory (moveHistory room')),
                            Emit (Socket sid) (ChatHistory (chatHistory room')),
                            Emit (IoTo roomId) (playersUpdate room')]))
                    else
                      (let room' = room \<lparr> spectators := spectators room @ [sid] \<rparr>
                       in (s \<lparr> rooms := (rooms s)(a \<mapsto> room'),
                                socketRoomId := (socketRoomId s)(sid \<mapsto> roomId) \<rparr>,
                           [SocketJoin sid roomId,
                            Emit (Socket sid) (RoleAssigned ''spectator''),
                            Emit (Socket sid) (BoardState (fen e (chess room'))),
                            Emit (Socket sid) (MoveHistory (moveHistory room')),
                            Emit (Socket sid) (ChatHistory (chatHistory room')),
                            Emit (Socket sid)
                              (RoleUnavailable (seat_name role) (roleTaken (seat_name role))),
                            Emit (IoTo roomId) (playersUpdate room')]))))))"

text \<open>\<open>handleDisconnection\<close>: the spectator entry goes at once, and a timer is armed that
  holds the room object, the room id and the time it is due (30 seconds later). Arming
  replaces a pending timer of the same socket.\<close>

definition handleDisconnection :: "'p server \<Rightarrow> conn \<Rightarrow> nat \<Rightarrow> 'p server" where
  "handleDisconnection s sid now =
     (case socketRoom s sid of
        None \<Rightarrow> s
      | Some (roomId, a, room) \<Rightarrow>
          s \<lparr> rooms := (rooms s)(a \<mapsto>
                 room \<lparr> spectators := filter (\<lambda>i. i \<noteq> sid) (spectators room) \<rparr>),
               disconnectTimers := (disconnectTimers s)(sid \<mapsto>
                 \<lparr> tm_room = a, tm_roomId = roomId, tm_due = now + 30000 \<rparr>) \<rparr>)"

text \<open>The timer's callback. It runs only for a pending timer that is due.\<close>

definition timerFires :: "'p server \<Rightarrow> conn \<Rightarrow> nat \<Rightarrow> 'p server \<times> 'm effect list" where
  "timerFires s sid now =
     (case disconnectTimers s sid of
        None \<Rightarrow> (s, [])
      | Some t \<Rightarrow>
          if now < tm_due t then (s, [])
          else (case rooms s (tm_room t) of
                  None \<Rightarrow> (s, [])
                | Some room \<Rightarrow>
                    (let room' = (if white room = Some sid then room \<lparr> white := None \<rparr>
                                  else if black room = Some sid then room \<lparr> black := None \<rparr>
                                  else room)
                     in (s \<lparr> rooms := (rooms s)(tm_room t \<mapsto> room'),
                              disconnectTimers := (disconnectTimers s)(sid := None) \<rparr>,
                         [Emit (IoTo (tm_roomId t)) (playersUpdate room')]))))"

section \<open>Chat, reset, resignation and draws\<close>

text \<open>The payload \<open>data\<close> of a \<open>chatMessage\<close>. The handler reads \<open>data.message\<close> with no
  guard and outside any \<open>try\<close>: for \<open>null\<close> and \<open>undefined\<close> (\<open>Nullish\<close>) the read throws
  a TypeError; for every other value it yields the message, which is a string or not
  (\<open>Data (Some str)\<close>, \<open>Data None\<close>).\<close>

datatype payload = Nullish | Data "jsstring option"

definition chatMessage :: "'p server \<Rightarrow> conn \<Rightarrow> payload \<Rightarrow> nat \<Rightarrow> nat
    \<Rightarrow> 'p server \<times> 'm effect list" where
  "chatMessage s sid data now rnd =
     (case socketRoom s sid of
        None \<Rightarrow> (s, [])
      | Some (roomId, a, room) \<Rightarrow>
          (case checkRateLimit (rateLimits s) sid ''chat'' 5 30000 now of (ok, rl) \<Rightarrow>
             if \<not> ok
             then (s \<lparr> rateLimits := rl \<rparr>,
                   [Emit (Socket sid) (ChatError ''You are sending messages too quickly'')])
             else if Some sid \<noteq> white room \<and> Some sid \<noteq> black room
             then (s \<lparr> rateLimits := rl \<rparr>,
                   [Emit (Socket sid) (ChatError ''Only players can send messages'')])
             else (case data of
                Nullish \<Rightarrow> (s \<lparr> rateLimits := rl \<rparr>, [Uncaught ''TypeError''])
              | Data text \<Rightarrow>
                  (case validateInput text 200 of
                     None \<Rightarrow> (s \<lparr> rateLimits := rl \<rparr>,
                              [Emit (Socket sid) (ChatError ''Invalid message content'')])
                   | Some message \<Rightarrow>
                       (let playerRole = (if Some sid = white room then ''white''
                                          else if Some sid = black room then ''black''
                                          else ''spectator'');
                            entry = \<lparr> cm_id = (now, rnd), cm_message = message,
                                      cm_playerRole = playerRole, cm_timestamp = now,
                                      cm_socketId = sid \<rparr>;
                            pushed = chatHistory room @ [entry];
                            history = (if length pushed > 50
                                       then drop (length pushed - 50) pushed else pushed)
                        in (s \<lparr> rateLimits := rl,
                                 rooms := (rooms s)(a \<mapsto> room \<lparr> chatHistory := history \<rparr>) \<rparr>,
                            [Emit (IoTo roomId) (ChatMessage entry)]))))))"

definition resetGame :: "('p, 'm) engine \<Rightarrow> 'p server \<Rightarrow> conn \<Rightarrow> 'p server \<times> 'm effect list" where
  "resetGame e s sid =
     (case socketRoom s sid of
        None \<Rightarrow> (s, [])
      | Some (roomId, a, room) \<Rightarrow>
          if Some sid = white room \<or> Some sid = black room then
            (let room' = room \<lparr> chess := reset e (chess room), moveHistory := [] \<rparr>
             in (s \<lparr> rooms := (rooms s)(a \<mapsto> room') \<rparr>,
                 [Emit (IoTo roomId) GameReset,
                  Emit (IoTo roomId) (BoardState (fen e (chess room'))),
                  Emit (IoTo roomId) (MoveHistory (moveHistory room'))]))
          else (s, []))"

definition resign :: "'p server \<Rightarrow> conn \<Rightarrow> 'p server \<times> 'm effect list" where
  "resign s sid =
     (case socketRoom s sid of
        None \<Rightarrow> (s, [])
      | Some (roomId, a, room) \<Rightarrow>
          if Some sid = white room
          then (s, [Emit (IoTo roomId) (GameEnd ''resignation'' (Some ''black'') (Some ''white'') None)])
          else if Some sid = black room
          then (s, [Emit (IoTo roomId) (GameEnd ''resignation'' (Some ''white'') (Some ''black'') None)])
          else (s, []))"

definition offerDraw :: "'p server \<Rightarrow> conn \<Rightarrow> 'p server \<times> 'm effect list" where
  "offerDraw s sid =
     (case socketRoom s sid of
        None \<Rightarrow> (s, [])
      | Some (roomId, a, room) \<Rightarrow>
          (case (if Some sid = white room then Some (''white'', black room)
                 else if Some sid = black room then Some (''black'', white room)
                 else None) of
             None \<Rightarrow> (s, [])
           | Some (offeringPlayer, opponentId) \<Rightarrow>
               (case (if truthy opponentId then opponentId else None) of
                  None \<Rightarrow> (s, [Emit (Socket sid) (DrawOfferError ''No opponent to offer draw to'')])
                | Some opponent \<Rightarrow>
                    (s, [Emit (IoTo opponent) (DrawOfferReceived offeringPlayer),
                         Emit (Socket sid) DrawOfferSent]))))"

definition respondToDraw :: "'p server \<Rightarrow> conn \<Rightarrow> bool \<Rightarrow> 'p server \<times> 'm effect list" where
  "respondToDraw s sid accepted =
     (case socketRoom s sid of
        None \<Rightarrow> (s, [])
      | Some (roomId, a, room) \<Rightarrow>
          (case (if Some sid = white room then Some (''white'', black room)
                 else if Some sid = black room then Some (''black'', white room)
                 else None) of
             None \<Rightarrow> (s, [])
           | Some (respondingPlayer, opponentId) \<Rightarrow>
               if accepted
               then (s, [Emit (IoTo roomId)
                           (GameEnd ''draw_agreement'' None None
                              (Some ''Draw accepted by mutual agreement''))])
               else (case (if truthy opponentId then opponentId else None) of
                       None \<Rightarrow> (s, [])
                     | Some opponent \<Rightarrow>
                         (s, [Emit (IoTo opponent) (DrawOfferDeclined respondingPlayer)]))))"

section \<open>The server as a transition system\<close>

text \<open>One input is one run of a handler, a timer callback or a sweep; the event loop runs
  them one at a time.\<close>

datatype 'm input =
    JoinRoom conn string string nat string
  | Reconnect conn string
  | MoveMsg conn 'm nat
  | ChatMsg conn payload nat nat
  | ResetGame conn
  | Resign conn
  | OfferDraw conn
  | RespondToDraw conn bool
  | Disconnect conn nat
  | TimerFires conn nat
  | SweepRooms nat
  | SweepSessions
  | SweepRateLimits nat

fun handle :: "('p, 'm) engine \<Rightarrow> 'p server \<Rightarrow> 'm input \<Rightarrow> 'p server \<times> 'm effect list" where
  "handle e s (JoinRoom sid roomId preferredRole now sessionId) =
     joinRoom e s sid roomId preferredRole now sessionId"
| "handle e s (Reconnect sid sessionId) = reconnect e s sid sessionId"
| "handle e s (MoveMsg sid mv now) = on_move e s sid mv now"
| "handle e s (ChatMsg sid data now rnd) = chatMessage s sid data now rnd"
| "handle e s (ResetGame sid) = resetGame e s sid"
| "handle e s (Resign sid) = resign s sid"
| "handle e s (OfferDraw sid) = offerDraw s sid"
| "handle e s (RespondToDraw sid accepted) = respondToDraw s sid accepted"
| "handle e s (Disconnect sid now) = (handleDisconnection s sid now, [])"
| "handle e s (TimerFires sid now) = timerFires s sid now"
| "handle e s (SweepRooms now) = (sweepRooms s now, [])"
| "handle e s (SweepSessions) = (sweepSessions s, [])"
| "handle e s (SweepRateLimits now) = (sweepRateLimits s now, [])"

fun run :: "('p, 'm) engine \<Rightarrow> 'p server \<Rightarrow> 'm input list \<Rightarrow> 'p server \<times> 'm effect list" where
  "run e s [] = (s, [])"
| "run e s (i # is) =
     (case handle e s i of (s1, out1) \<Rightarrow>
        (case run e s1 is of (s2, out2) \<Rightarrow> (s2, out1 @ out2)))"

definition roomOf :: "'p server \<Rightarrow> string \<Rightarrow> 'p room option" where
  "roomOf s roomId = (case gameRooms s roomId of None \<Rightarrow> None | Some a \<Rightarrow> rooms s a)"

section \<open>A stand-in rules engine for concrete runs\<close>

text \<open>Concrete runs need some engine. This one keeps the list of moves played and lets the
  sides alternate. Any non-empty string is a legal move, except that \<open>??\<close> is illegal
  and \<open>!!\<close> makes the engine throw. A move containing \<open>#\<close> mates, one containing
  \<open>=\<close> stalemates and one containing \<open>~\<close> repeats a position.\<close>

definition toy_turn :: "string list \<Rightarrow> color" where
  "toy_turn p = (if even (length p) then W else B)"

definition toy_mark :: "char \<Rightarrow> string list \<Rightarrow> bool" where
  "toy_mark c p = (case rev p of [] \<Rightarrow> False | m # ms \<Rightarrow> c \<in> set m)"

definition toy :: "(string list, string) engine" where
  "toy = \<lparr> newChess = [],
           turn = toy_turn,
           fen = (\<lambda>p. concat p),
           move = (\<lambda>p mv. if mv = ''!!'' then Threw ''Invalid move''
                          else if mv = [] \<or> mv = ''??'' then Illegal
                          else Legal (p @ [mv]) mv (toy_turn p)),
           reset = (\<lambda>p. []),
           game_over = Some (\<lambda>p. toy_mark CHR ''#'' p \<or> toy_mark CHR ''='' p \<or> toy_mark CHR ''~'' p),
           in_checkmate = Some (toy_mark CHR ''#''),
           in_stalemate = Some (toy_mark CHR ''=''),
           in_threefold_repetition = Some (toy_mark CHR ''~''),
           insufficient_material = Some (\<lambda>p. False),
           in_draw = Some (\<lambda>p. toy_mark CHR ''='' p \<or> toy_mark CHR ''~'' p) \<rparr>"

text \<open>The same engine with the interface of chess.js 1.0.0-beta, the version the
  repository names: its methods are called \<open>isGameOver\<close>, \<open>isCheckmate\<close>, \<open>isStalemate\<close>,
  \<open>isThreefoldRepetition\<close>, \<open>isInsufficientMaterial\<close> and \<open>isDraw\<close>, so none of the six
  names the server looks for exists, and an illegal move makes \<open>move\<close> throw.\<close>

definition toy_beta :: "(string list, string) engine" where
  "toy_beta = toy \<lparr> move := (\<lambda>p mv. if mv = ''!!'' \<or> mv = [] \<or> mv = ''??''
                                      then Threw ''Invalid move''
                                      else Legal (p @ [mv]) mv (toy_turn p)),
                     game_over := None, in_checkmate := None, in_stalemate := None,
                     in_threefold_repetition := None, insufficient_material := None,
                     in_draw := None \<rparr>"

text \<open>Two players seated in room ROOM1: white is socket \<open>w1\<close>, black is socket \<open>b1\<close>.\<close>

definition two_joins :: "string input list" where
  "two_joins = [JoinRoom ''w1'' ''ROOM1'' ''white'' 0 ''tokw'',
                JoinRoom ''b1'' ''ROOM1'' ''black'' 5 ''tokb'']"

definition seated :: "string list server" where
  "seated = fst (run toy init_server two_joins)"

text \<open>The room object of ROOM1 in that state.\<close>

definition seated_room :: "string list room" where
  "seated_room = \<lparr> chess = [], white = Some ''w1'', black = Some ''b1'', currentPlayer = W,
                   spectators = [], moveHistory = [], chatHistory = [],
                   createdAt = 0, lastActivity = 5 \<rparr>"

section \<open>Notions used by the properties\<close>

text \<open>The submitting connection occupies the seat of the side to move, in the room its
  socket is in.\<close>

definition seatedToMove :: "('p, 'm) engine \<Rightarrow> 'p server \<Rightarrow> conn \<Rightarrow> bool" where
  "seatedToMove e s sid =
     (case socketRoom s sid of
        None \<Rightarrow> False
      | Some (roomId, a, room) \<Rightarrow>
          (case turn e (chess room) of
             W \<Rightarrow> white room = Some sid
           | B \<Rightarrow> black room = Some sid))"


text \<open>The state \<open>s'\<close> is \<open>s\<close> with the move appended to the room's history and the
  engine's new position in place, and nothing else changed.\<close>

definition moveApplied :: "('p, 'm) engine \<Rightarrow> 'p server \<Rightarrow> conn \<Rightarrow> 'm \<Rightarrow> nat \<Rightarrow> 'p server \<Rightarrow> bool" where
  "moveApplied e s sid mv now s' =
     (case socketRoom s sid of
        None \<Rightarrow> False
      | Some (roomId, a, room) \<Rightarrow>
          (case move e (chess room) mv of
             Legal p san col \<Rightarrow>
               s' = s \<lparr> rooms := (rooms s)(a \<mapsto>
                      room \<lparr> chess := p,
                             moveHistory := moveHistory room @
                               [\<lparr> mh_move = san, mh_color = col, mh_timestamp = now \<rparr>],
                             currentPlayer := turn e p \<rparr>) \<rparr>
           | Illegal \<Rightarrow> False
           | Threw msg \<Rightarrow> False))"

fun isGameEnd :: "'m effect \<Rightarrow> bool" where
  "isGameEnd (Emit t (GameEnd ty w r m)) = True"
| "isGameEnd ef = False"

text \<open>The first terminal condition the engine reports for a position, in the order
  checkmate, stalemate, repetition, insufficient material, other draw, with the winner
  that goes with it (the side that is not to move, for a checkmate).\<close>

definition terminalCondition :: "('p, 'm) engine \<Rightarrow> 'p \<Rightarrow> (string \<times> string option) option" where
  "terminalCondition e p =
     (if has (in_checkmate e) p
      then Some (''checkmate'', Some (if turn e p = W then ''black'' else ''white''))
      else if has (in_stalemate e) p then Some (''stalemate'', None)
      else if has (in_threefold_repetition e) p then Some (''threefold'', None)
      else if has (insufficient_material e) p then Some (''insufficient'', None)
      else if has (in_draw e) p then Some (''draw'', None)
      else None)"

text \<open>The number of slots (seats and spectator entries) of a room that hold a connection.\<close>

definition slotsIn :: "conn \<Rightarrow> 'p room \<Rightarrow> nat" where
  "slotsIn c room =
     (if white room = Some c then 1 else 0) + (if black room = Some c then 1 else 0)
     + count_list (spectators room) c"

text \<open>The chat window of a connection is full: its entry in \<open>rateLimits\<close> has not reached
  its reset time and already counts 5 messages.\<close>

definition windowFull :: "'p server \<Rightarrow> conn \<Rightarrow> nat \<Rightarrow> bool" where
  "windowFull s sid now =
     (case rateLimits s (sid @ ''-'' @ ''chat'') of
        None \<Rightarrow> False
      | Some lim \<Rightarrow> now \<le> resetTime lim \<and> 5 \<le> count lim)"

definition rateLimitNotice :: "conn \<Rightarrow> 'm effect" where
  "rateLimitNotice sid = Emit (Socket sid) (ChatError ''You are sending messages too quickly'')"

fun isRateLimitNotice :: "'m effect \<Rightarrow> bool" where
  "isRateLimitNotice (Emit t (ChatError x)) = (x = ''You are sending messages too quickly'')"
| "isRateLimitNotice ef = False"

fun isChatBroadcast :: "'m effect \<Rightarrow> bool" where
  "isChatBroadcast (Emit (IoTo x) (ChatMessage en)) = True"
| "isChatBroadcast ef = False"

fun chatBroadcast :: "'m effect list \<Rightarrow> (string \<times> chat_entry) option" where
  "chatBroadcast [Emit (IoTo x) (ChatMessage en)] = Some (x, en)"
| "chatBroadcast out = None"

text \<open>The specification's rate limit, in its words: a message sent at \<open>now\<close> exceeds 5
  messages within a 30-second sliding window when, counting it, more than 5 of the
  sender's messages fall in the 30 seconds that end at \<open>now\<close>. \<open>earlier\<close> lists the times
  of the sender's earlier messages.\<close>

definition slidingWindowExceeded :: "nat list \<Rightarrow> nat \<Rightarrow> bool" where
  "slidingWindowExceeded earlier now =
     (length (filter (\<lambda>t. t \<le> now \<and> now < t + 30000) earlier) + 1 > 5)"

text \<open>The specification's sanitization, in its words: the text trimmed, capped at 200
  characters and stripped of embedded markup (every \<open><...>\<close> is removed).\<close>

fun stripMarkup :: "bool \<Rightarrow> jsstring \<Rightarrow> jsstring" where
  "stripMarkup inTag [] = []"
| "stripMarkup inTag (c # cs) =
     (if inTag then (if c = 62 then stripMarkup False cs else stripMarkup True cs)
      else if c = 60 \<and> 62 \<in> set cs then stripMarkup True cs
      else c # stripMarkup False cs)"

definition specSanitize :: "jsstring \<Rightarrow> jsstring" where
  "specSanitize str = stripMarkup False (take 200 (trim str))"

section \<open>Concrete runs\<close>

definition hi :: jsstring where
  "hi = [104, 105]"

definition markup :: jsstring where
  "markup = [60, 98, 62, 104, 105, 60, 47, 98, 62]"

text \<open>The runs below start in the state \<open>seated\<close>. White disconnects at 1000 ms and comes back 10 seconds later on a new socket
  \<open>w2\<close> with its session id; the timer of the old socket runs when it is due.\<close>

definition grace_reconnect :: "string input list" where
  "grace_reconnect =
     [Disconnect ''w1'' 1000, Reconnect ''w2'' ''tokw'', TimerFires ''w1'' 31000]"

text \<open>A socket joins twice: a second room, then the room it is already seated in.\<close>

definition double_join :: "string input list" where
  "double_join =
     [JoinRoom ''w1'' ''ROOM1'' ''white'' 0 ''tok1'',
      JoinRoom ''w1'' ''ROOM2'' ''white'' 1 ''tok2'',
      JoinRoom ''w1'' ''ROOM1'' ''white'' 2 ''tok3'']"

text \<open>The players joined in the first five milliseconds. The idle sweep runs every 30
  minutes; white moves and black chats 89 minutes in, one second and half a second
  before the third sweep.\<close>

definition busy :: "string input list" where
  "busy = [SweepRooms 1800000, SweepRooms 3600000,
           MoveMsg ''w1'' ''e4'' 5399000, ChatMsg ''b1'' (Data (Some hi)) 5399500 0]"

definition busy_then_swept :: "string input list" where
  "busy_then_swept = busy @ [SweepRooms 5400000]"


text \<open>Ten chat messages of white: one at time 0, four more just before the window of
  the first closes at 30000 ms, and five right after it.\<close>

definition chat_times :: "nat list" where
  "chat_times = [0, 29997, 29998, 29999, 30000, 30001, 30002, 30003, 30004, 30005]"

definition chat_burst :: "string input list" where
  "chat_burst = map (\<lambda>t. ChatMsg ''w1'' (Data (Some hi)) t 0) chat_times"

text \<open>The state after the first five of these messages.\<close>

definition five_sent :: "string list server" where
  "five_sent = fst (run toy seated (take 5 chat_burst))"

text \<open>The room of \<open>seated\<close> with a chat history of 50 entries.\<close>

definition old_entry :: "nat \<Rightarrow> chat_entry" where
  "old_entry n = \<lparr> cm_id = (n, 0), cm_message = hi, cm_playerRole = ''white'',
                   cm_timestamp = n, cm_socketId = ''w1'' \<rparr>"

definition full_room :: "string list room" where
  "full_room = seated_room \<lparr> chatHistory := map old_entry [0..<50] \<rparr>"

definition full_chat :: "string list server" where
  "full_chat = seated \<lparr> rooms := [0 \<mapsto> full_room] \<rparr>"

text \<open>Every room object holds at most 50 chat entries.\<close>

definition chatBounded :: "'p server \<Rightarrow> bool" where
  "chatBounded s = (\<forall>a room. rooms s a = Some room \<longrightarrow> length (chatHistory room) \<le> 50)"

text \<open>The inputs that are a \<open>joinRoom\<close> message.\<close>

fun isJoinRoom :: "'m input \<Rightarrow> bool" where
  "isJoinRoom (JoinRoom sid roomId preferredRole now sessionId) = True"
| "isJoinRoom i = False"

section \<open>Helper facts\<close>

lemmas toy_defs = toy_def toy_turn_def toy_mark_def

lemmas handler_defs = joinRoom_def validRoles_def getOrCreateRoom_def ownRoom_def
  objectPrototype_def init_server_def
  assignRole_def truthy_def socketRoom_def on_move_def gameEndCheck_def has_def reconnect_def
  handleDisconnection_def timerFires_def chatMessage_def checkRateLimit_def resign_def
  offerDraw_def respondToDraw_def resetGame_def sweepRooms_def sweepSessions_def
  sweepRateLimits_def playersUpdate_def occupancy_def roomOf_def Let_def



lemma validateRoomId_ROOM1: "validateRoomId ''ROOM1''"
  by (simp add: validateRoomId_def toUpperCase_def roomPattern_def)

lemma validateRoomId_ROOM2: "validateRoomId ''ROOM2''"
  by (simp add: validateRoomId_def toUpperCase_def roomPattern_def)

lemma seated_state:
  "seated = \<lparr> rooms = [0 \<mapsto> seated_room], nextRef = 1, gameRooms = [''ROOM1'' \<mapsto> 0],
       playerSessions = [''tokw'' \<mapsto> (''ROOM1'', White), ''tokb'' \<mapsto> (''ROOM1'', Black)],
       rateLimits = Map.empty,
       socketRoomId = [''w1'' \<mapsto> ''ROOM1'', ''b1'' \<mapsto> ''ROOM1''],
       disconnectTimers = Map.empty \<rparr>"
  by (simp add: seated_def two_joins_def seated_room_def joinRoom_def validateRoomId_ROOM1
      validRoles_def getOrCreateRoom_def ownRoom_def objectPrototype_def init_server_def
      assignRole_def truthy_def toy_defs Let_def)

lemma seated_socketRoom_w1: "socketRoom seated ''w1'' = Some (''ROOM1'', 0, seated_room)"
  by (simp add: seated_state socketRoom_def)



lemma seated_rateLimits: "rateLimits seated = Map.empty"
  by (simp add: seated_state)

lemma dropWhile_hd: "xs \<noteq> [] \<Longrightarrow> \<not> P (hd xs) \<Longrightarrow> dropWhile P xs = xs"
  by (cases xs) auto

lemma trim_unchanged:
  assumes "str \<noteq> []" "\<not> js_space (hd str)" "\<not> js_space (last str)"
  shows "trim str = str"
proof -
  have 1: "dropWhile js_space str = str"
    using assms by (simp add: dropWhile_hd)
  have 2: "dropWhile js_space (rev str) = rev str"
    using assms dropWhile_hd [of "rev str" js_space] by (simp add: hd_rev)
  show ?thesis by (simp add: trim_def 1 2)
qed

lemma trim_hi: "trim hi = hi"
  by (simp add: trim_def hi_def js_space_def)

lemma validateInput_hi: "validateInput (Some hi) 200 = Some hi"
  by (simp add: validateInput_def trim_hi Let_def) (simp add: hi_def allowedChars_def)

lemma validateInput_Some:
  "validateInput text n = Some m \<longleftrightarrow>
     (\<exists>str. text = Some str \<and> m = trim str \<and> m \<noteq> [] \<and> length m \<le> n \<and> list_all allowedChars m)"
  by (auto simp: validateInput_def Let_def trim_def split: option.splits if_splits)

lemma stripMarkup_plain: "60 \<notin> set cs \<Longrightarrow> stripMarkup False cs = cs"
  by (induction cs) auto

lemma checkRateLimit_windowFull:
  "fst (checkRateLimit (rateLimits s) sid ''chat'' 5 30000 now) = (\<not> windowFull s sid now)"
  by (auto simp: checkRateLimit_def windowFull_def Let_def split: option.splits)

lemma checkRateLimit_full_unchanged:
  "windowFull s sid now \<Longrightarrow> snd (checkRateLimit (rateLimits s) sid ''chat'' 5 30000 now) = rateLimits s"
  by (auto simp: checkRateLimit_def windowFull_def Let_def split: option.splits)

lemma checkRateLimit_counts:
  "\<not> windowFull s sid now \<Longrightarrow>
   snd (checkRateLimit (rateLimits s) sid ''chat'' 5 30000 now) =
     (rateLimits s)(sid @ ''-'' @ ''chat'' \<mapsto>
        (case rateLimits s (sid @ ''-'' @ ''chat'') of
           None \<Rightarrow> \<lparr> count = 1, resetTime = now + 30000 \<rparr>
         | Some lim \<Rightarrow> if now > resetTime lim then \<lparr> count = 1, resetTime = now + 30000 \<rparr>
                       else lim \<lparr> count := count lim + 1 \<rparr>))"
  by (auto simp: checkRateLimit_def windowFull_def Let_def split: option.splits)

lemma Suc5: "Suc (Suc (Suc (Suc (Suc 0)))) = 5"
  by simp

lemma five_sent_state:
  "five_sent = seated \<lparr> rooms := [0 \<mapsto> seated_room \<lparr> chatHistory :=
        map (\<lambda>t. \<lparr> cm_id = (t, 0), cm_message = hi, cm_playerRole = ''white'',
                    cm_timestamp = t, cm_socketId = ''w1'' \<rparr>) (take 5 chat_times) \<rparr>],
      rateLimits := [''w1-chat'' \<mapsto> \<lparr> count = 5, resetTime = 30000 \<rparr>] \<rparr>"
  by (simp add: five_sent_def chat_burst_def chat_times_def seated_state seated_room_def
      chatMessage_def checkRateLimit_def socketRoom_def validateInput_hi Let_def Suc5)

lemma five_sent_socketRoom:
  "socketRoom five_sent ''w1'' = Some (''ROOM1'', 0, seated_room \<lparr> chatHistory :=
        map (\<lambda>t. \<lparr> cm_id = (t, 0), cm_message = hi, cm_playerRole = ''white'',
                    cm_timestamp = t, cm_socketId = ''w1'' \<rparr>) (take 5 chat_times) \<rparr>)"
  by (simp add: five_sent_state seated_state socketRoom_def)

lemma full_chat_socketRoom: "socketRoom full_chat ''w1'' = Some (''ROOM1'', 0, full_room)"
  by (simp add: full_chat_def seated_state socketRoom_def)

lemma full_chat_rateLimits: "rateLimits full_chat = Map.empty"
  by (simp add: full_chat_def seated_rateLimits)

lemma getOrCreateRoom_rooms:
  "getOrCreateRoom e s roomId now = (s1, Some (a, room)) \<Longrightarrow>
     rooms s1 = (rooms s)(a \<mapsto> room) \<and> socketRoomId s1 = socketRoomId s"
  by (auto simp: getOrCreateRoom_def Let_def split: option.splits if_splits)

lemma getOrCreateRoom_None:
  "(snd (getOrCreateRoom e s roomId now) = None)
     = (ownRoom s roomId = None \<and> roomId \<in> set objectPrototype)"
  by (auto simp: getOrCreateRoom_def Let_def split: option.splits)

lemma getOrCreateRoom_None_state:
  "getOrCreateRoom e s roomId now = (s1, None) \<Longrightarrow> s1 = s"
  by (auto simp: getOrCreateRoom_def Let_def split: option.splits if_splits)

lemma assignRole_slots:
  assumes "sid \<noteq> []" "preferredRole \<in> set validRoles"
    and "assignRole room sid roomId preferredRole sessionId = (room', assigned, session, emitted)"
  shows "slotsIn sid room' = Suc (slotsIn sid room)"
    and "c \<noteq> sid \<Longrightarrow> c \<noteq> [] \<Longrightarrow> slotsIn c room' = slotsIn c room"
    and "truthy (white room) \<Longrightarrow> white room' = white room"
    and "truthy (black room) \<Longrightarrow> black room' = black room"
  using assms
  by (auto simp: assignRole_def validRoles_def slotsIn_def truthy_def
      split: if_splits option.splits)

lemma seated_getOrCreateRoom:
  "getOrCreateRoom toy seated ''ROOM1'' 20
     = (seated \<lparr> rooms := [0 \<mapsto> seated_room \<lparr> lastActivity := 20 \<rparr>] \<rparr>,
        Some (0, seated_room \<lparr> lastActivity := 20 \<rparr>))"
  by (simp add: getOrCreateRoom_def ownRoom_def seated_state Let_def)

lemma validateRoomId_constructor: "validateRoomId ''constructor''"
  by (simp add: validateRoomId_def toUpperCase_def roomPattern_def)

text \<open>What the code does for a valid room id that names an inherited property, and for a
  chat payload that is \<open>null\<close> or \<open>undefined\<close>: the handler throws.\<close>

lemma joinRoom_inherited_key_throws:
  assumes "validateRoomId roomId" "preferredRole \<in> set validRoles"
    and "ownRoom s roomId = None" "roomId \<in> set objectPrototype"
  shows "joinRoom e s sid roomId preferredRole now sessionId
           = (s \<lparr> socketRoomId := (socketRoomId s)(sid \<mapsto> roomId) \<rparr>,
              [SocketJoin sid roomId, Uncaught ''TypeError''])"
  using assms by (simp add: joinRoom_def getOrCreateRoom_def)

lemma chatMessage_nullish_throws:
  assumes "socketRoom s sid = Some (roomId, a, room)"
    and "Some sid = white room \<or> Some sid = black room" "\<not> windowFull s sid now"
  shows "chatMessage s sid Nullish now rnd
           = (s \<lparr> rateLimits := snd (checkRateLimit (rateLimits s) sid ''chat'' 5 30000 now) \<rparr>,
              [Uncaught ''TypeError''])"
  using assms checkRateLimit_windowFull [of s sid now]
  by (auto simp: chatMessage_def split: prod.splits)

subsection \<open>The chat bound is an invariant of the server\<close>

lemma chatBounded_update:
  "chatBounded s \<Longrightarrow> length (chatHistory room) \<le> 50 \<Longrightarrow>
   rooms s' = (rooms s)(a \<mapsto> room) \<Longrightarrow> chatBounded s'"
  by (simp add: chatBounded_def)

lemma assignRole_chatHistory:
  "assignRole room sid roomId preferredRole sessionId = (room', x) \<Longrightarrow>
     chatHistory room' = chatHistory room"
  by (auto simp: assignRole_def split: if_splits)

lemma getOrCreateRoom_chatBounded:
  assumes "chatBounded s" "getOrCreateRoom e s roomId now = (s1, Some (a, room))"
  shows "chatBounded s1 \<and> length (chatHistory room) \<le> 50 \<and> rooms s1 a = Some room"
  using assms
  by (auto simp: getOrCreateRoom_def ownRoom_def Let_def chatBounded_def
      split: option.splits if_splits)

lemma joinRoom_chatBounded:
  assumes "chatBounded s"
  shows "chatBounded (fst (joinRoom e s sid roomId preferredRole now sessionId))"
proof (cases "validateRoomId roomId \<and> preferredRole \<in> set validRoles")
  case False
  with assms show ?thesis by (auto simp: joinRoom_def)
next
  case True
  obtain s1 found where g: "getOrCreateRoom e s roomId now = (s1, found)"
    by (cases "getOrCreateRoom e s roomId now") auto
  show ?thesis
  proof (cases found)
    case None
    with g have "s1 = s" by (simp add: getOrCreateRoom_None_state)
    with assms True g None show ?thesis
      by (simp add: joinRoom_def chatBounded_def)
  next
    case (Some t)
    then obtain a room where t: "found = Some (a, room)" by (cases t) auto
    obtain room' x where ar: "assignRole room sid roomId preferredRole sessionId
        = (room', x :: string \<times> (string \<times> seat) option \<times> 'b event list)"
      by (cases "assignRole room sid roomId preferredRole sessionId
            :: 'a room \<times> string \<times> (string \<times> seat) option \<times> 'b event list") auto
    from getOrCreateRoom_chatBounded [OF assms g [unfolded t]] assignRole_chatHistory [OF ar]
    have b: "chatBounded s1" "length (chatHistory room') \<le> 50" by simp_all
    have "rooms (fst (joinRoom e s sid roomId preferredRole now sessionId))
            = (rooms s1)(a \<mapsto> room')"
      using True g t ar by (cases x) (auto simp: joinRoom_def)
    with b show ?thesis by (rule chatBounded_update)
  qed
qed

lemma setPlayer_chatHistory: "chatHistory (setPlayer role sid room) = chatHistory room"
  by (cases role) simp_all

lemma reconnect_chatBounded:
  "chatBounded s \<Longrightarrow> chatBounded (fst (reconnect e s sid sessionId))"
  by (auto simp: reconnect_def Let_def chatBounded_def setPlayer_chatHistory
      split: option.splits if_splits)

lemma on_move_chatBounded:
  "chatBounded s \<Longrightarrow> chatBounded (fst (on_move e s sid mv now))"
  by (auto simp: on_move_def Let_def chatBounded_def socketRoom_def
      split: option.splits move_result.splits if_splits)

lemma chatMessage_chatBounded:
  "chatBounded s \<Longrightarrow> chatBounded (fst (chatMessage s sid text now rnd))"
  by (auto simp: chatMessage_def Let_def chatBounded_def socketRoom_def
      split: option.splits prod.splits if_splits payload.splits)

lemma resetGame_chatBounded:
  "chatBounded s \<Longrightarrow> chatBounded (fst (resetGame e s sid))"
  by (auto simp: resetGame_def Let_def chatBounded_def socketRoom_def
      split: option.splits if_splits)

lemma handleDisconnection_chatBounded:
  "chatBounded s \<Longrightarrow> chatBounded (handleDisconnection s sid now)"
  by (auto simp: handleDisconnection_def chatBounded_def socketRoom_def
      split: option.splits if_splits)

lemma timerFires_chatBounded:
  "chatBounded s \<Longrightarrow> chatBounded (fst (timerFires s sid now))"
  by (auto simp: timerFires_def Let_def chatBounded_def split: option.splits if_splits)

lemma handle_chatBounded:
  assumes "chatBounded s"
  shows "chatBounded (fst (handle e s i))"
proof (cases i)
  case (JoinRoom sid roomId preferredRole now sessionId)
  with assms show ?thesis by (simp add: joinRoom_chatBounded)
next
  case (Reconnect sid sessionId)
  with assms show ?thesis by (simp add: reconnect_chatBounded)
next
  case (MoveMsg sid mv now)
  with assms show ?thesis by (simp add: on_move_chatBounded)
next
  case (ChatMsg sid msg now rnd)
  with assms show ?thesis by (simp add: chatMessage_chatBounded)
next
  case (ResetGame sid)
  with assms show ?thesis by (simp add: resetGame_chatBounded)
next
  case (Resign sid)
  with assms show ?thesis
    by (auto simp: resign_def split: option.splits)
next
  case (OfferDraw sid)
  with assms show ?thesis
    by (auto simp: offerDraw_def split: option.splits)
next
  case (RespondToDraw sid accepted)
  with assms show ?thesis
    by (auto simp: respondToDraw_def split: option.splits)
next
  case (Disconnect sid now)
  with assms show ?thesis by (simp add: handleDisconnection_chatBounded)
next
  case (TimerFires sid now)
  with assms show ?thesis by (simp add: timerFires_chatBounded)
next
  case (SweepRooms now)
  with assms show ?thesis by (simp add: sweepRooms_def chatBounded_def)
next
  case SweepSessions
  with assms show ?thesis by (simp add: sweepSessions_def chatBounded_def)
next
  case (SweepRateLimits now)
  with assms show ?thesis by (simp add: sweepRateLimits_def chatBounded_def)
qed

lemma fst_run_Cons: "fst (run e s (i # is)) = fst (run e (fst (handle e s i)) is)"
  by (simp split: prod.splits)

lemma run_chatBounded: "chatBounded s \<Longrightarrow> chatBounded (fst (run e s is))"
proof (induction "is" arbitrary: s)
  case Nil
  then show ?case by simp
next
  case (Cons i "is")
  from Cons.prems have "chatBounded (fst (handle e s i))" by (rule handle_chatBounded)
  then have "chatBounded (fst (run e (fst (handle e s i)) is))" by (rule Cons.IH)
  then show ?case by (simp only: fst_run_Cons)
qed

lemma init_chatBounded: "chatBounded init_server"
  by (simp add: chatBounded_def init_server_def)

subsection \<open>Which handlers touch the timers and the activity stamp\<close>

text \<open>The reconnect handler never cancels a disconnect timer, a disconnect leaves the
  seats as they are, and a reconnect for a seat that is still occupied ends in the
  spectator list. \<open>lastActivity\<close> is written by \<open>getOrCreateRoom\<close> only, which only
  \<open>joinRoom\<close> calls.\<close>

lemma reconnect_keeps_timers:
  "disconnectTimers (fst (reconnect e s sid sessionId)) = disconnectTimers s"
  by (auto simp: reconnect_def Let_def split: option.splits)

lemma handleDisconnection_keeps_seats:
  assumes "rooms s a = Some room" "rooms (handleDisconnection s sid now) a = Some room'"
  shows "white room' = white room \<and> black room' = black room"
  using assms
  by (auto simp: handleDisconnection_def socketRoom_def split: option.splits if_splits)

lemma reconnect_occupied_seat_spectates:
  assumes "sessionId \<noteq> []" "playerSessions s sessionId = Some (roomId, role)"
    and "gameRooms s roomId = Some a" "rooms s a = Some room" "truthy (player role room)"
  shows "rooms (fst (reconnect e s sid sessionId)) a
           = Some (room \<lparr> spectators := spectators room @ [sid] \<rparr>)"
  using assms by (simp add: reconnect_def Let_def)

lemma setPlayer_lastActivity: "lastActivity (setPlayer role sid room) = lastActivity room"
  by (cases role) simp_all

lemma lastActivity_only_set_by_join:
  assumes "\<not> isJoinRoom i" "rooms s a = Some room" "rooms (fst (handle e s i)) a = Some room'"
  shows "lastActivity room' = lastActivity room"
proof (cases i)
  case (JoinRoom sid roomId preferredRole now sessionId)
  with assms show ?thesis by simp
next
  case (Reconnect sid sessionId)
  with assms show ?thesis
    by (auto simp: reconnect_def Let_def setPlayer_lastActivity split: option.splits if_splits)
next
  case (MoveMsg sid mv now)
  with assms show ?thesis
    by (auto simp: on_move_def Let_def socketRoom_def
        split: option.splits move_result.splits if_splits)
next
  case (ChatMsg sid msg now rnd)
  with assms show ?thesis
    by (auto simp: chatMessage_def Let_def socketRoom_def
        split: option.splits prod.splits if_splits payload.splits)
next
  case (ResetGame sid)
  with assms show ?thesis
    by (auto simp: resetGame_def Let_def socketRoom_def split: option.splits if_splits)
next
  case (Resign sid)
  with assms show ?thesis
    by (auto simp: resign_def split: option.splits if_splits)
next
  case (OfferDraw sid)
  with assms show ?thesis
    by (auto simp: offerDraw_def split: option.splits if_splits)
next
  case (RespondToDraw sid accepted)
  with assms show ?thesis
    by (auto simp: respondToDraw_def split: option.splits if_splits)
next
  case (Disconnect sid now)
  with assms show ?thesis
    by (auto simp: handleDisconnection_def socketRoom_def split: option.splits if_splits)
next
  case (TimerFires sid now)
  with assms show ?thesis
    by (auto simp: timerFires_def Let_def split: option.splits if_splits)
next
  case (SweepRooms now)
  with assms show ?thesis by (simp add: sweepRooms_def)
next
  case SweepSessions
  with assms show ?thesis by (simp add: sweepSessions_def)
next
  case (SweepRateLimits now)
  with assms show ?thesis by (simp add: sweepRateLimits_def)
qed

subsection \<open>The game-end check\<close>

text \<open>With an engine that has the six guarded methods, an accepted move after which
  \<open>game_over\<close> holds and a terminal condition is reported emits exactly one \<open>gameEnd\<close>, for
  the first condition in the order of the check; no submission emits more than one.
  Without the method \<open>game_over\<close>, no submission emits any.\<close>

lemma gameEnd_with_guarded_methods:
  "length (filter isGameEnd (snd (on_move e s sid mv now))) \<le> 1
   \<and> (socketRoom s sid = Some (roomId, a, room) \<and> seatedToMove e s sid
        \<and> move e (chess room) mv = Legal p san col
        \<and> has (game_over e) p \<and> terminalCondition e p = Some (ty, w)
      \<longrightarrow> filter isGameEnd (snd (on_move e s sid mv now))
            = [Emit (IoTo roomId) (GameEnd ty w None None)]
          \<and> (w \<noteq> None) = (ty = ''checkmate'')
          \<and> (has (in_checkmate e) p \<longrightarrow> ty = ''checkmate''))"
proof -
  have ge: "length (filter isGameEnd (gameEndCheck e r q)) \<le> 1" for r :: string and q
    by (simp add: gameEndCheck_def)
  have one: "length (filter isGameEnd (snd (on_move e s sid mv now))) \<le> 1"
    using ge
    by (auto simp: on_move_def Let_def split: option.splits move_result.splits prod.splits)
  have two: "filter isGameEnd (snd (on_move e s sid mv now))
            = [Emit (IoTo roomId) (GameEnd ty w None None)]
          \<and> (w \<noteq> None) = (ty = ''checkmate'')
          \<and> (has (in_checkmate e) p \<longrightarrow> ty = ''checkmate'')"
    if h: "socketRoom s sid = Some (roomId, a, room)" "seatedToMove e s sid"
        "move e (chess room) mv = Legal p san col"
        "has (game_over e) p" "terminalCondition e p = Some (ty, w)"
  proof -
    have out: "snd (on_move e s sid mv now) =
        [Emit (IoTo roomId) (Move mv), Emit (IoTo roomId) (BoardState (fen e p)),
         Emit (IoTo roomId) (MoveHistory (moveHistory room @
            [\<lparr> mh_move = san, mh_color = col, mh_timestamp = now \<rparr>]))]
        @ gameEndCheck e roomId p"
      using h(1,2,3)
      by (cases "turn e (chess room)") (auto simp: on_move_def seatedToMove_def Let_def)
    have g: "gameEndCheck e roomId p = [Emit (IoTo roomId) (GameEnd ty w None None)]"
      using h(4,5) by (auto simp: gameEndCheck_def terminalCondition_def split: if_splits)
    from h(5) have "(w \<noteq> None) = (ty = ''checkmate'')"
        "has (in_checkmate e) p \<longrightarrow> ty = ''checkmate''"
      by (auto simp: terminalCondition_def split: if_splits)
    with out g show ?thesis by simp
  qed
  from one two show ?thesis by blast
qed

lemma no_game_over_no_gameEnd:
  "game_over e = None \<Longrightarrow> filter isGameEnd (snd (on_move e s sid mv now)) = []"
  by (auto simp: on_move_def gameEndCheck_def has_def Let_def
      split: option.splits move_result.splits prod.splits)

section \<open>Move submission\<close>



text \<open>
  Claim C2 says that every legal move that ends the game emits exactly one \<open>gameEnd\<close>,
  for the first terminal condition that matches. The check after a move calls
  \<open>game_over\<close>, \<open>in_checkmate\<close>, \<open>in_stalemate\<close>, \<open>in_threefold_repetition\<close>,
  \<open>insufficient_material\<close> and \<open>in_draw\<close>, each only if the engine object has a method of
  that name. The engine the repository names, chess.js 1.0.0-beta, has none of these
  names, so the outer guard is false and nothing is emitted: white's mating move
  \<open>Qh5#\<close> is accepted and broadcast, and no \<open>gameEnd\<close> follows it.
\<close>

theorem mating_move_emits_no_gameEnd:
  "moveApplied toy_beta seated ''w1'' ''Qh5#'' 10 (fst (on_move toy_beta seated ''w1'' ''Qh5#'' 10))
   \<and> toy_mark CHR ''#'' [''Qh5#'']
   \<and> snd (on_move toy_beta seated ''w1'' ''Qh5#'' 10)
       = [Emit (IoTo ''ROOM1'') (Move ''Qh5#''),
          Emit (IoTo ''ROOM1'') (BoardState ''Qh5#''),
          Emit (IoTo ''ROOM1'')
            (MoveHistory [\<lparr> mh_move = ''Qh5#'', mh_color = W, mh_timestamp = 10 \<rparr>])]
   \<and> filter isGameEnd (snd (on_move toy_beta seated ''w1'' ''Qh5#'' 10)) = []"
  by (simp add: moveApplied_def on_move_def gameEndCheck_def has_def seated_socketRoom_w1
      seated_room_def toy_beta_def toy_defs Let_def)

section \<open>Disconnect, grace period and reconnect\<close>

text \<open>
  Claim C3 says that a seated player who disconnects and reconnects with the session id
  within the 30 seconds keeps the seat under the same role, and that no \<open>waiting\<close> update
  for the seat is broadcast. The run \<open>grace_reconnect\<close> shows what the server does: during
  the grace period the seat still holds the old socket's id, so the reconnect handler
  finds the role taken and makes the returning player a spectator (with a
  \<open>roleUnavailable\<close> notice); the timer is not cancelled, and when it is due it vacates
  the seat and broadcasts \<open>white: waiting\<close>. The white seat ends up empty.
\<close>

theorem reconnect_within_grace_loses_seat:
  "snd (run toy seated grace_reconnect) =
     [SocketJoin ''w2'' ''ROOM1'',
      Emit (Socket ''w2'') (RoleAssigned ''spectator''),
      Emit (Socket ''w2'') (BoardState []),
      Emit (Socket ''w2'') (MoveHistory []),
      Emit (Socket ''w2'') (ChatHistory []),
      Emit (Socket ''w2'') (RoleUnavailable ''white'' (roleTaken ''white'')),
      Emit (IoTo ''ROOM1'') (PlayersUpdate ''connected'' ''connected'' 1),
      Emit (IoTo ''ROOM1'') (PlayersUpdate ''waiting'' ''connected'' 1)]
   \<and> roomOf (fst (run toy seated (butlast grace_reconnect))) ''ROOM1''
       = Some (seated_room \<lparr> spectators := [''w2''] \<rparr>)
   \<and> roomOf (fst (run toy seated grace_reconnect)) ''ROOM1''
       = Some (seated_room \<lparr> white := None, spectators := [''w2''] \<rparr>)"
  by (simp add: grace_reconnect_def seated_state seated_room_def handler_defs toy_defs)

section \<open>Seats and slots\<close>

text \<open>
  Claim C4 as stated fails: a seat holds at most one connection, but a connection can
  hold several slots. After the run \<open>double_join\<close> the socket \<open>w1\<close> is white in ROOM1,
  white in ROOM2, and a spectator of ROOM1 as well.
\<close>

theorem double_join_holds_many_slots:
  "map_option (slotsIn ''w1'') (roomOf (fst (run toy init_server double_join)) ''ROOM1'') = Some 2
   \<and> map_option (slotsIn ''w1'') (roomOf (fst (run toy init_server double_join)) ''ROOM2'') = Some 1
   \<and> map_option white (roomOf (fst (run toy init_server double_join)) ''ROOM1'') = Some (Some ''w1'')
   \<and> map_option spectators (roomOf (fst (run toy init_server double_join)) ''ROOM1'') = Some [''w1'']
   \<and> map_option white (roomOf (fst (run toy init_server double_join)) ''ROOM2'') = Some (Some ''w1'')"
  by (simp add: double_join_def handler_defs toy_defs validateRoomId_ROOM1 validateRoomId_ROOM2 slotsIn_def)

text \<open>
  Claim C4, amended. Each seat holds at most one connection, and a connection may hold
  several slots. A \<open>joinRoom\<close> with a valid role and a valid room id for which
  \<open>getOrCreateRoom\<close> finds or creates a room (every id but a property name that the
  registry object inherits and does not own) changes one room object only, that room
  with its activity stamp set. In it the joining connection (its id is not empty) gains
  exactly one slot: the preferred seat if it is free, a spectator entry otherwise. A seat that is occupied is
  never overwritten, every other connection keeps exactly the slots it had, and no slot
  the joining connection already holds, in this room or in another, is released. The
  socket's current room becomes the target room.
\<close>

theorem join_adds_one_slot:
  "(snd (getOrCreateRoom (e :: ('p, 'm) engine) s roomId now) = None)
      = (ownRoom s roomId = None \<and> roomId \<in> set objectPrototype)
   \<and> (validateRoomId roomId \<and> preferredRole \<in> set validRoles \<and> sid \<noteq> []
      \<and> getOrCreateRoom e s roomId now = (s1, Some (a, room))
      \<and> joinRoom e s sid roomId preferredRole now sessionId = (s', out)
      \<longrightarrow> (a, room) = (case ownRoom s roomId of
                         Some (a0, room0) \<Rightarrow> (a0, room0 \<lparr> lastActivity := now \<rparr>)
                       | None \<Rightarrow> (nextRef s,
                           \<lparr> chess = newChess e, white = None, black = None,
                             currentPlayer = W, spectators = [], moveHistory = [],
                             chatHistory = [], createdAt = now, lastActivity = now \<rparr>))
        \<and> rooms s' a
            = Some (if preferredRole = ''white'' \<and> \<not> truthy (white room)
                    then room \<lparr> white := Some sid \<rparr>
                    else if preferredRole = ''black'' \<and> \<not> truthy (black room)
                    then room \<lparr> black := Some sid \<rparr>
                    else room \<lparr> spectators := spectators room @ [sid] \<rparr>)
        \<and> (\<exists>room'. rooms s' a = Some room'
              \<and> slotsIn sid room' = Suc (slotsIn sid room)
              \<and> (\<forall>c. c \<noteq> sid \<and> c \<noteq> [] \<longrightarrow> slotsIn c room' = slotsIn c room)
              \<and> (truthy (white room) \<longrightarrow> white room' = white room)
              \<and> (truthy (black room) \<longrightarrow> black room' = black room))
        \<and> (\<forall>b. b \<noteq> a \<longrightarrow> rooms s' b = rooms s b)
        \<and> socketRoomId s' sid = Some roomId)"
proof (rule conjI, goal_cases)
  case 1
  show ?case by (rule getOrCreateRoom_None)
next
  case 2
  show ?case
  proof (rule impI, elim conjE, goal_cases)
  case 1
  then have v: "validateRoomId roomId" and p: "preferredRole \<in> set validRoles"
    and n: "sid \<noteq> []"
    and g: "getOrCreateRoom e s roomId now = (s1, Some (a, room))"
    and j: "joinRoom e s sid roomId preferredRole now sessionId = (s', out)"
    by simp_all
  obtain room' assigned session emitted
    where ar: "assignRole room sid roomId preferredRole sessionId
                 = (room', assigned, session, emitted :: 'm event list)"
    by (cases "assignRole room sid roomId preferredRole sessionId
                 :: 'p room \<times> string \<times> (string \<times> seat) option \<times> 'm event list")
       auto
  from j v p g ar have s': "rooms s' = (rooms s1)(a \<mapsto> room')"
      "socketRoomId s' sid = Some roomId"
    by (auto simp: joinRoom_def)
  from getOrCreateRoom_rooms [OF g] have s1: "rooms s1 = (rooms s)(a \<mapsto> room)"
    by simp
  from g have found: "(a, room) = (case ownRoom s roomId of
                         Some (a0, room0) \<Rightarrow> (a0, room0 \<lparr> lastActivity := now \<rparr>)
                       | None \<Rightarrow> (nextRef s,
                           \<lparr> chess = newChess e, white = None, black = None,
                             currentPlayer = W, spectators = [], moveHistory = [],
                             chatHistory = [], createdAt = now, lastActivity = now \<rparr>))"
    by (auto simp: getOrCreateRoom_def Let_def split: option.splits if_splits)
  from ar p have which: "room' = (if preferredRole = ''white'' \<and> \<not> truthy (white room)
                    then room \<lparr> white := Some sid \<rparr>
                    else if preferredRole = ''black'' \<and> \<not> truthy (black room)
                    then room \<lparr> black := Some sid \<rparr>
                    else room \<lparr> spectators := spectators room @ [sid] \<rparr>)"
    by (auto simp: assignRole_def validRoles_def split: if_splits)
  have at: "rooms s' a = Some room'" using s' by simp
  have others: "\<forall>b. b \<noteq> a \<longrightarrow> rooms s' b = rooms s b" using s' s1 by simp
  have slots: "\<exists>room'. rooms s' a = Some room'
              \<and> slotsIn sid room' = Suc (slotsIn sid room)
              \<and> (\<forall>c. c \<noteq> sid \<and> c \<noteq> [] \<longrightarrow> slotsIn c room' = slotsIn c room)
              \<and> (truthy (white room) \<longrightarrow> white room' = white room)
              \<and> (truthy (black room) \<longrightarrow> black room' = black room)"
    using at assignRole_slots [OF n p ar] by auto
  from found at which slots others s'(2) show ?case
    by simp
  qed
qed

theorem join_adds_one_slot_witness:
  "validateRoomId ''ROOM1'' \<and> ''white'' \<in> set validRoles \<and> ''w1'' \<noteq> []
   \<and> snd (getOrCreateRoom toy seated ''ROOM1'' 20)
       = Some (0, seated_room \<lparr> lastActivity := 20 \<rparr>)
   \<and> slotsIn ''w1'' (seated_room \<lparr> lastActivity := 20 \<rparr>) = 1
   \<and> rooms (fst (joinRoom toy seated ''w1'' ''ROOM1'' ''white'' 20 ''tok3'')) 0
       = Some (seated_room \<lparr> lastActivity := 20, spectators := [''w1''] \<rparr>)
   \<and> map_option (slotsIn ''w1'')
        (rooms (fst (joinRoom toy seated ''w1'' ''ROOM1'' ''white'' 20 ''tok3'')) 0) = Some 2
   \<and> map_option (slotsIn ''b1'')
        (rooms (fst (joinRoom toy seated ''w1'' ''ROOM1'' ''white'' 20 ''tok3'')) 0) = Some 1"
proof -
  let ?room = "seated_room \<lparr> lastActivity := 20 \<rparr>"
  have r: "''white'' \<in> set validRoles"
    by (simp add: validRoles_def)
  have w: "slotsIn ''w1'' ?room = 1" and b: "slotsIn ''b1'' ?room = 1"
    by (simp_all add: slotsIn_def seated_room_def)
  have t: "truthy (white ?room)"
    by (simp add: truthy_def seated_room_def)
  obtain s' and out :: "string effect list"
    where j: "joinRoom toy seated ''w1'' ''ROOM1'' ''white'' 20 ''tok3'' = (s', out)"
    by (cases "joinRoom toy seated ''w1'' ''ROOM1'' ''white'' 20 ''tok3''") blast
  have "rooms s' 0 = Some (if ''white'' = ''white'' \<and> \<not> truthy (white ?room)
                    then ?room \<lparr> white := Some ''w1'' \<rparr>
                    else if ''white'' = ''black'' \<and> \<not> truthy (black ?room)
                    then ?room \<lparr> black := Some ''w1'' \<rparr>
                    else ?room \<lparr> spectators := spectators ?room @ [''w1''] \<rparr>)
        \<and> (\<exists>room'. rooms s' 0 = Some room'
              \<and> slotsIn ''w1'' room' = Suc (slotsIn ''w1'' ?room)
              \<and> (\<forall>c. c \<noteq> ''w1'' \<and> c \<noteq> [] \<longrightarrow> slotsIn c room' = slotsIn c ?room)
              \<and> (truthy (white ?room) \<longrightarrow> white room' = white ?room)
              \<and> (truthy (black ?room) \<longrightarrow> black room' = black ?room))"
    using validateRoomId_ROOM1 r seated_getOrCreateRoom j
      join_adds_one_slot [of toy seated "''ROOM1''" 20 "''white''" "''w1''" _ 0 ?room "''tok3''" s' out]
    by blast
  then have 1: "rooms s' 0 = Some (?room \<lparr> spectators := [''w1''] \<rparr>)"
    and 2: "\<exists>room'. rooms s' 0 = Some room' \<and> slotsIn ''w1'' room' = 2
              \<and> slotsIn ''b1'' room' = 1"
    using t w b by (auto simp: seated_room_def)
  from 1 2 validateRoomId_ROOM1 r seated_getOrCreateRoom j w show ?thesis
    by auto
qed

section \<open>Idle rooms\<close>

text \<open>
  Claim C5 says that every room-affecting action refreshes the room's activity stamp, so
  that a room with an action in the last hour survives the idle sweep. In the run
  \<open>busy_then_swept\<close> white moves one second and black chats half a second before the
  sweep at 5400000 ms: both are accepted, the stamp is still that of the last join
  (5 ms), and the sweep removes the room; the next move submission is dropped.
\<close>

theorem idle_sweep_removes_room_in_use:
  "roomOf (fst (run toy seated busy)) ''ROOM1''
     = Some (seated_room \<lparr> chess := [''e4''], currentPlayer := B,
          moveHistory := [\<lparr> mh_move = ''e4'', mh_color = W, mh_timestamp = 5399000 \<rparr>],
          chatHistory := [\<lparr> cm_id = (5399500, 0), cm_message = hi, cm_playerRole = ''black'',
                            cm_timestamp = 5399500, cm_socketId = ''b1'' \<rparr>] \<rparr>)
   \<and> map_option lastActivity (roomOf (fst (run toy seated busy)) ''ROOM1'') = Some 5
   \<and> gameRooms (fst (run toy seated busy_then_swept)) ''ROOM1'' = None
   \<and> snd (on_move toy (fst (run toy seated busy_then_swept)) ''b1'' ''e5'' 5400001) = []"
  by (simp add: busy_then_swept_def busy_def seated_state seated_room_def handler_defs toy_defs validateInput_hi)

section \<open>Chat\<close>

text \<open>
  Claim C6. In every state the server can reach, every room holds at most 50 chat
  entries. When a chat message is accepted (it is broadcast to the room), the room's new
  history is the last 50 entries of the old history followed by the new entry: the old
  history with the entry appended while fewer than 50 are held, and with the oldest
  entry dropped when 50 are held. No other room object changes.
\<close>

theorem chat_history_bounded_fifo:
  "chatBounded (fst (run e init_server is))
   \<and> (socketRoom s sid = Some (roomId, a, room)
      \<and> chatMessage s sid text now rnd = (s', out)
      \<and> chatBroadcast out = Some (r, entry)
      \<longrightarrow> map_option chatHistory (rooms s' a)
            = Some (drop (Suc (length (chatHistory room)) - 50) (chatHistory room @ [entry]))
          \<and> (\<forall>h. map_option chatHistory (rooms s' a) = Some h \<longrightarrow>
                length h \<le> 50
                \<and> (length (chatHistory room) < 50 \<longrightarrow> h = chatHistory room @ [entry])
                \<and> (length (chatHistory room) = 50 \<longrightarrow> h = tl (chatHistory room) @ [entry]))
          \<and> (\<forall>b. b \<noteq> a \<longrightarrow> rooms s' b = rooms s b))"
proof -
  have inv: "chatBounded (fst (run e init_server is))"
    by (rule run_chatBounded [OF init_chatBounded])
  have d: "drop (Suc (length xs) - 50) (xs @ [x]) = tl xs @ [x]" if "length xs = 50"
    for xs :: "chat_entry list" and x
    using that by (cases xs) auto
  have step: "socketRoom s sid = Some (roomId, a, room)
      \<and> chatMessage s sid text now rnd = (s', out)
      \<and> chatBroadcast out = Some (r, entry)
      \<longrightarrow> map_option chatHistory (rooms s' a)
            = Some (drop (Suc (length (chatHistory room)) - 50) (chatHistory room @ [entry]))
          \<and> (\<forall>h. map_option chatHistory (rooms s' a) = Some h \<longrightarrow>
                length h \<le> 50
                \<and> (length (chatHistory room) < 50 \<longrightarrow> h = chatHistory room @ [entry])
                \<and> (length (chatHistory room) = 50 \<longrightarrow> h = tl (chatHistory room) @ [entry]))
          \<and> (\<forall>b. b \<noteq> a \<longrightarrow> rooms s' b = rooms s b)"
    using d [of "chatHistory room"]
    by (auto simp: chatMessage_def Let_def
        split: prod.splits option.splits if_splits payload.splits)
  from inv step show ?thesis by (rule conjI)
qed

theorem chat_history_bounded_fifo_witness:
  "socketRoom full_chat ''w1'' = Some (''ROOM1'', 0, full_room)
   \<and> length (chatHistory full_room) = 50
   \<and> (\<exists>entry. chatBroadcast (snd (chatMessage full_chat ''w1'' (Data (Some hi)) 77 0
                   :: string list server \<times> string effect list)) = Some (''ROOM1'', entry)
         \<and> map_option chatHistory (rooms (fst (chatMessage full_chat ''w1'' (Data (Some hi)) 77 0
                   :: string list server \<times> string effect list)) 0)
             = Some (map old_entry [1..<50] @ [entry])
         \<and> cm_timestamp entry = 77)"
proof -
  have len: "length (chatHistory full_room) = 50"
    by (simp add: full_room_def)
  have tl50: "tl (chatHistory full_room) = map old_entry [1..<50]"
    by (simp add: full_room_def map_tl [symmetric] upt_conv_Cons del: upt_Suc)
  have w: "Some ''w1'' = white full_room"
    by (simp add: full_room_def seated_room_def)
  define entry where "entry = \<lparr> cm_id = (77, 0), cm_message = hi, cm_playerRole = ''white'',
                                 cm_timestamp = 77, cm_socketId = ''w1'' \<rparr>"
  obtain s1 and out1 :: "string effect list"
    where c1: "chatMessage full_chat ''w1'' (Data (Some hi)) 77 0 = (s1, out1)"
    by (cases "chatMessage full_chat ''w1'' (Data (Some hi)) 77 0
          :: string list server \<times> string effect list") blast
  have o: "out1 = [Emit (IoTo ''ROOM1'') (ChatMessage entry)]"
    using c1 w
    by (simp add: chatMessage_def full_chat_socketRoom checkRateLimit_def full_chat_rateLimits
        validateInput_hi entry_def Let_def)
  then have b: "chatBroadcast out1 = Some (''ROOM1'', entry)"
    by simp
  have "map_option chatHistory (rooms s1 0) = Some (tl (chatHistory full_room) @ [entry])"
    using full_chat_socketRoom c1 b len
      chat_history_bounded_fifo [of toy "[]" full_chat "''w1''" "''ROOM1''" 0 full_room "Data (Some hi)" 77 0
        s1 out1 "''ROOM1''" entry]
    by auto
  with tl50 b c1 len full_chat_socketRoom show ?thesis
    by (auto simp: entry_def)
qed

section \<open>Resignation\<close>




section \<open>Chat rate limit and chat text\<close>

text \<open>
  Claim C8 as stated fails: the limiter counts in fixed windows, not in a sliding one.
  In the run \<open>chat_burst\<close> white sends ten messages, nine of them within 8 ms around
  the end of the first window; the tenth has eight earlier messages in the 30 seconds
  before it, and none of the ten is rate-limited.
\<close>

theorem burst_across_windows_not_limited:
  "slidingWindowExceeded (butlast chat_times) (last chat_times)
   \<and> filter isRateLimitNotice (snd (run toy seated chat_burst)) = []
   \<and> length (filter isChatBroadcast (snd (run toy seated chat_burst))) = 10"
  by (simp add: slidingWindowExceeded_def chat_times_def chat_burst_def seated_state seated_room_def handler_defs toy_defs validateInput_hi)

text \<open>
  Claim C8, amended. A chat message of a connection that is in a room is rejected with
  the rate-limit notice, sent to the sender only and with the whole server state
  unchanged, exactly when the connection's current window is full: its window has not
  passed its reset time and has already counted 5 messages. A window is fixed: it opens
  with the first message counted (and lasts 30 seconds from it), and the first message
  after its reset time opens a new one with count 1; every other message that is not
  rejected adds one to the count.
\<close>

theorem chat_rate_limit_fixed_window:
  "socketRoom s sid = Some (roomId, a, room) \<and> chatMessage s sid text now rnd = (s', out)
   \<longrightarrow> (out = [rateLimitNotice sid]) = windowFull s sid now
       \<and> (filter isRateLimitNotice out \<noteq> []) = windowFull s sid now
       \<and> (windowFull s sid now \<longrightarrow> s' = s)
       \<and> (\<not> windowFull s sid now \<longrightarrow>
            rateLimits s' (sid @ ''-'' @ ''chat'') =
              Some (case rateLimits s (sid @ ''-'' @ ''chat'') of
                      None \<Rightarrow> \<lparr> count = 1, resetTime = now + 30000 \<rparr>
                    | Some lim \<Rightarrow>
                        if now > resetTime lim then \<lparr> count = 1, resetTime = now + 30000 \<rparr>
                        else lim \<lparr> count := count lim + 1 \<rparr>))"
proof (cases "windowFull s sid now")
  case True
  with checkRateLimit_windowFull [of s sid now] checkRateLimit_full_unchanged [of s sid now]
  show ?thesis
    by (auto simp: chatMessage_def rateLimitNotice_def split: prod.splits)
next
  case False
  with checkRateLimit_windowFull [of s sid now] checkRateLimit_counts [of s sid now]
  show ?thesis
    by (auto simp: chatMessage_def rateLimitNotice_def Let_def
        split: prod.splits option.splits payload.splits)
qed

theorem chat_rate_limit_fixed_window_witness:
  "socketRoom five_sent ''w1'' \<noteq> None
   \<and> windowFull five_sent ''w1'' 30000
   \<and> chatMessage five_sent ''w1'' (Data (Some hi)) 30000 0
        = (five_sent, [rateLimitNotice ''w1'' :: string effect])
   \<and> \<not> windowFull five_sent ''w1'' 30001
   \<and> rateLimits (fst (chatMessage five_sent ''w1'' (Data (Some hi)) 30001 0
         :: string list server \<times> string effect list)) ''w1-chat''
        = Some \<lparr> count = 1, resetTime = 60001 \<rparr>"
proof -
  obtain room where r: "socketRoom five_sent ''w1'' = Some (''ROOM1'', 0, room)"
    using five_sent_socketRoom by blast
  have f: "windowFull five_sent ''w1'' 30000"
    by (simp add: windowFull_def five_sent_state)
  have n: "\<not> windowFull five_sent ''w1'' 30001"
    by (simp add: windowFull_def five_sent_state)
  obtain s1 and out1 :: "string effect list"
    where c1: "chatMessage five_sent ''w1'' (Data (Some hi)) 30000 0 = (s1, out1)"
    by (cases "chatMessage five_sent ''w1'' (Data (Some hi)) 30000 0 :: string list server \<times> string effect list") blast
  obtain s2 and out2 :: "string effect list"
    where c2: "chatMessage five_sent ''w1'' (Data (Some hi)) 30001 0 = (s2, out2)"
    by (cases "chatMessage five_sent ''w1'' (Data (Some hi)) 30001 0 :: string list server \<times> string effect list") blast
  have 1: "s1 = five_sent \<and> out1 = [rateLimitNotice ''w1'']"
    using r f c1 chat_rate_limit_fixed_window [of five_sent "''w1''" "''ROOM1''" 0 room "Data (Some hi)" 30000 0 s1 out1]
    by blast
  have 2: "rateLimits s2 ''w1-chat'' = Some \<lparr> count = 1, resetTime = 60001 \<rparr>"
    using r n c2 chat_rate_limit_fixed_window [of five_sent "''w1''" "''ROOM1''" 0 room "Data (Some hi)" 30001 0 s2 out2]
    by (simp add: five_sent_state)
  show ?thesis
    using r f n c1 c2 1 2 by simp
qed

text \<open>
  Claim C9 as stated fails: the server validates the text, it does not rewrite it. A
  message with markup, which the specification's sanitization turns into \<open>hi\<close>, and a
  message of 201 letters, which it caps at 200, are both rejected with the
  invalid-content error; nothing is stored or broadcast, and the rate-limit window has
  counted the message.
\<close>

theorem markup_rejected_not_stripped:
  "specSanitize markup = hi
   \<and> chatMessage seated ''w1'' (Data (Some markup)) 10 0
       = (seated \<lparr> rateLimits := (rateLimits seated)(''w1-chat'' \<mapsto> \<lparr> count = 1, resetTime = 30010 \<rparr>) \<rparr>,
          [Emit (Socket ''w1'') (ChatError ''Invalid message content'') :: string effect])
   \<and> specSanitize (replicate 201 97) = replicate 200 97
   \<and> chatMessage seated ''w1'' (Data (Some (replicate 201 97))) 10 0
       = (seated \<lparr> rateLimits := (rateLimits seated)(''w1-chat'' \<mapsto> \<lparr> count = 1, resetTime = 30010 \<rparr>) \<rparr>,
          [Emit (Socket ''w1'') (ChatError ''Invalid message content'') :: string effect])"
proof -
  have tm: "trim markup = markup"
    by (rule trim_unchanged) (simp_all add: markup_def js_space_def)
  have vm: "validateInput (Some markup) 200 = None"
    by (simp add: validateInput_def tm Let_def) (simp add: markup_def allowedChars_def js_space_def)
  have sm: "specSanitize markup = hi"
    by (simp add: specSanitize_def tm) (simp add: markup_def hi_def)
  have tl: "trim (replicate 201 97) = replicate 201 97"
    by (rule trim_unchanged) (simp_all add: js_space_def)
  have vl: "validateInput (Some (replicate 201 97)) 200 = None"
    by (simp add: validateInput_def tl Let_def)
  have "take 200 (replicate 201 (97::nat)) = replicate 200 97"
    by simp
  then have sl: "specSanitize (replicate 201 97) = replicate 200 97"
    by (simp add: specSanitize_def tl stripMarkup_plain)
  have c1: "chatMessage seated ''w1'' (Data (Some markup)) 10 0
      = (seated \<lparr> rateLimits := (rateLimits seated)(''w1-chat'' \<mapsto> \<lparr> count = 1, resetTime = 30010 \<rparr>) \<rparr>,
         [Emit (Socket ''w1'') (ChatError ''Invalid message content'') :: string effect])"
    by (simp add: chatMessage_def seated_socketRoom_w1 checkRateLimit_def seated_rateLimits vm seated_room_def)
  have c2: "chatMessage seated ''w1'' (Data (Some (replicate 201 97))) 10 0
      = (seated \<lparr> rateLimits := (rateLimits seated)(''w1-chat'' \<mapsto> \<lparr> count = 1, resetTime = 30010 \<rparr>) \<rparr>,
         [Emit (Socket ''w1'') (ChatError ''Invalid message content'') :: string effect])"
    by (simp add: chatMessage_def seated_socketRoom_w1 checkRateLimit_def seated_rateLimits vl seated_room_def)
  show ?thesis
    using sm sl c1 c2 by simp
qed

text \<open>
  Claim C9, amended. For a chat message from a seated player under the rate limit whose
  payload is neither \<open>null\<close> nor \<open>undefined\<close>, the text is trimmed and then checked, never
  capped or stripped: when the message is a string whose trimmed text is not empty, at
  most 200 code units long and made only of letters, digits, white space and the
  characters \<open>- _ . , ! ? ' " ( )\<close>, the trimmed text is stored (as the last entry of the
  room's history) and broadcast as it is; otherwise the message is rejected with the
  invalid-content error to the sender only, and no room object changes.
\<close>

theorem chat_text_validated_not_rewritten:
  "socketRoom s sid = Some (roomId, a, room)
   \<and> (Some sid = white room \<or> Some sid = black room)
   \<and> \<not> windowFull s sid now
   \<and> chatMessage s sid (Data text) now rnd = (s', out)
   \<longrightarrow> (case validateInput text 200 of
          None \<Rightarrow> out = [Emit (Socket sid) (ChatError ''Invalid message content'')]
                  \<and> rooms s' = rooms s
        | Some message \<Rightarrow>
            (\<exists>entry. out = [Emit (IoTo roomId) (ChatMessage entry)]
                \<and> cm_message entry = message
                \<and> map_option (\<lambda>r. last (chatHistory r)) (rooms s' a) = Some entry))
       \<and> (\<forall>m. validateInput text 200 = Some m \<longleftrightarrow>
            (\<exists>str. text = Some str \<and> m = trim str \<and> m \<noteq> [] \<and> length m \<le> 200
                   \<and> list_all allowedChars m))"
proof -
  have v: "\<forall>m. validateInput text 200 = Some m \<longleftrightarrow>
            (\<exists>str. text = Some str \<and> m = trim str \<and> m \<noteq> [] \<and> length m \<le> 200
                   \<and> list_all allowedChars m)"
    by (simp add: validateInput_Some)
  have c: "(case validateInput text 200 of
          None \<Rightarrow> out = [Emit (Socket sid) (ChatError ''Invalid message content'')]
                  \<and> rooms s' = rooms s
        | Some message \<Rightarrow>
            (\<exists>entry. out = [Emit (IoTo roomId) (ChatMessage entry)]
                \<and> cm_message entry = message
                \<and> map_option (\<lambda>r. last (chatHistory r)) (rooms s' a) = Some entry))"
    if h: "socketRoom s sid = Some (roomId, a, room)"
        "Some sid = white room \<or> Some sid = black room"
        "\<not> windowFull s sid now"
        "chatMessage s sid (Data text) now rnd = (s', out)"
    using h checkRateLimit_windowFull [of s sid now]
    by (auto simp: chatMessage_def Let_def split: prod.splits option.splits)
  from v c show ?thesis by blast
qed

theorem chat_text_validated_not_rewritten_witness:
  "socketRoom seated ''w1'' = Some (''ROOM1'', 0, seated_room)
   \<and> Some ''w1'' = white seated_room
   \<and> \<not> windowFull seated ''w1'' 10
   \<and> validateInput (Some [32, 104, 105, 32]) 200 = Some hi
   \<and> (\<exists>entry. snd (chatMessage seated ''w1'' (Data (Some [32, 104, 105, 32])) 10 0)
                 = [Emit (IoTo ''ROOM1'') (ChatMessage entry) :: string effect]
              \<and> cm_message entry = hi)
   \<and> validateInput (Some markup) 200 = None
   \<and> snd (chatMessage seated ''w1'' (Data (Some markup)) 10 0)
        = [Emit (Socket ''w1'') (ChatError ''Invalid message content'') :: string effect]"
proof -
  have w: "Some ''w1'' = white seated_room"
    by (simp add: seated_room_def)
  have n: "\<not> windowFull seated ''w1'' 10"
    by (simp add: windowFull_def seated_rateLimits)
  have v1: "validateInput (Some [32, 104, 105, 32]) 200 = Some hi"
    by (simp add: validateInput_def trim_def hi_def js_space_def allowedChars_def)
  have tm: "trim markup = markup"
    by (rule trim_unchanged) (simp_all add: markup_def js_space_def)
  have v2: "validateInput (Some markup) 200 = None"
    by (simp add: validateInput_def tm Let_def) (simp add: markup_def allowedChars_def js_space_def)
  obtain s1 and out1 :: "string effect list"
    where c1: "chatMessage seated ''w1'' (Data (Some [32, 104, 105, 32])) 10 0 = (s1, out1)"
    by (cases "chatMessage seated ''w1'' (Data (Some [32, 104, 105, 32])) 10 0
          :: string list server \<times> string effect list") blast
  obtain s2 and out2 :: "string effect list"
    where c2: "chatMessage seated ''w1'' (Data (Some markup)) 10 0 = (s2, out2)"
    by (cases "chatMessage seated ''w1'' (Data (Some markup)) 10 0
          :: string list server \<times> string effect list") blast
  have a1: "case validateInput (Some [32, 104, 105, 32]) 200 of
          None \<Rightarrow> out1 = [Emit (Socket ''w1'') (ChatError ''Invalid message content'')]
                  \<and> rooms s1 = rooms seated
        | Some message \<Rightarrow>
            (\<exists>entry. out1 = [Emit (IoTo ''ROOM1'') (ChatMessage entry)]
                \<and> cm_message entry = message
                \<and> map_option (\<lambda>r. last (chatHistory r)) (rooms s1 0) = Some entry)"
    using seated_socketRoom_w1 w n c1
      chat_text_validated_not_rewritten [of seated "''w1''" "''ROOM1''" 0 seated_room 10
        "Some [32, 104, 105, 32]" 0 s1 out1]
    by blast
  have 1: "\<exists>entry. out1 = [Emit (IoTo ''ROOM1'') (ChatMessage entry)] \<and> cm_message entry = hi"
    using a1 unfolding v1 by auto
  have a2: "case validateInput (Some markup) 200 of
          None \<Rightarrow> out2 = [Emit (Socket ''w1'') (ChatError ''Invalid message content'')]
                  \<and> rooms s2 = rooms seated
        | Some message \<Rightarrow>
            (\<exists>entry. out2 = [Emit (IoTo ''ROOM1'') (ChatMessage entry)]
                \<and> cm_message entry = message
                \<and> map_option (\<lambda>r. last (chatHistory r)) (rooms s2 0) = Some entry)"
    using seated_socketRoom_w1 w n c2
      chat_text_validated_not_rewritten [of seated "''w1''" "''ROOM1''" 0 seated_room 10
        "Some markup" 0 s2 out2]
    by blast
  have 2: "out2 = [Emit (Socket ''w1'') (ChatError ''Invalid message content'')]"
    using a2 unfolding v2 by simp
  show ?thesis
    using seated_socketRoom_w1 w n v1 v2 c1 c2 1 2 by simp
qed

section \<open>Draws\<close>



end
